theory Spec2Isabelle
  imports Complex_Main "HOL-Library.Sublist"
begin

section \<open>Python values and string operations used by pa\_SplitEXR.py\<close>

text \<open>
  Strings are lists of characters. Case conversion is the ASCII one: the channel and layer
  names of an EXR file are taken to be ASCII text.
\<close>

datatype error = AttributeError | UnboundLocalError | IndexError | KeyError | NotImplementedError

definition lower_char :: "char \<Rightarrow> char" where
  "lower_char c =
     (case map_of (zip ''ABCDEFGHIJKLMNOPQRSTUVWXYZ'' ''abcdefghijklmnopqrstuvwxyz'') c of
        None \<Rightarrow> c | Some l \<Rightarrow> l)"

definition upper_char :: "char \<Rightarrow> char" where
  "upper_char c =
     (case map_of (zip ''abcdefghijklmnopqrstuvwxyz'' ''ABCDEFGHIJKLMNOPQRSTUVWXYZ'') c of
        None \<Rightarrow> c | Some u \<Rightarrow> u)"

definition lower :: "string \<Rightarrow> string" where
  "lower s = map lower_char s"

definition upper :: "string \<Rightarrow> string" where
  "upper s = map upper_char s"

text \<open>\<open>s.split(sep)\<close> for a one-character separator: always at least one segment.\<close>

fun split :: "char \<Rightarrow> string \<Rightarrow> string list" where
  "split sep [] = [[]]"
| "split sep (c # cs) =
     (if c = sep then [] # split sep cs
      else (case split sep cs of [] \<Rightarrow> [[c]] | seg # segs \<Rightarrow> (c # seg) # segs))"

text \<open>\<open>sep.join(segments)\<close>.\<close>

fun join :: "string \<Rightarrow> string list \<Rightarrow> string" where
  "join sep [] = []"
| "join sep [s] = s"
| "join sep (s # t # ts) = s @ sep @ join sep (t # ts)"

text \<open>\<open>sub in s\<close> on strings.\<close>

fun starts_with :: "string \<Rightarrow> string \<Rightarrow> bool" where
  "starts_with s [] = True"
| "starts_with [] (p # ps) = False"
| "starts_with (c # cs) (p # ps) = (c = p \<and> starts_with cs ps)"

fun contains :: "string \<Rightarrow> string \<Rightarrow> bool" where
  "contains [] sub = (sub = [])"
| "contains (c # cs) sub = (starts_with (c # cs) sub \<or> contains cs sub)"

text \<open>
  \<open>os.path.basename\<close> and the root part of \<open>os.path.splitext\<close>, in their POSIX form: the
  base name is what follows the last slash; the extension of a base name starts at its last
  dot unless only dots precede it.
\<close>

definition basename :: "string \<Rightarrow> string" where
  "basename p = last (split (CHR ''/'') p)"

definition splitext_root :: "string \<Rightarrow> string" where
  "splitext_root name =
     (let segs = split (CHR ''.'') name;
          root = join ''.'' (butlast segs)
      in if filter (\<lambda>c. c \<noteq> CHR ''.'') root \<noteq> [] then root else name)"

section \<open>Channel-name parser\<close>

text \<open>
  The \<open>layers\<close> dictionary of \<open>split_multilayer_exr\<close> keeps insertion order, so it is an
  association list with distinct keys; each value is the list of (channel key, raw channel
  name) pairs of the layer.
\<close>

type_synonym channels = "(string \<times> string) list"
type_synonym layers = "(string \<times> channels) list"

definition namespace_separator :: char where
  "namespace_separator = CHR ''.''"

text \<open>\<open>layers[layer_name].append(entry)\<close>\<close>

definition layer_append :: "layers \<Rightarrow> string \<Rightarrow> string \<times> string \<Rightarrow> layers" where
  "layer_append ls layer_name entry =
     map (\<lambda>(n, cs). if n = layer_name then (n, cs @ [entry]) else (n, cs)) ls"

text \<open>One iteration of the loop over \<open>sourceChannels\<close> (lines 300 to 311).\<close>

definition add_channel :: "layers \<Rightarrow> string \<Rightarrow> layers" where
  "add_channel ls channel =
     (let s = split namespace_separator channel;
          (key, layer_name) =
             (if length s > 1 then (last s, join [namespace_separator] (butlast s))
              else (channel, ''default''));
          ls1 = (if layer_name \<notin> set (map fst ls) then ls @ [(layer_name, [])] else ls);
          key1 = lower key
      in layer_append ls1 layer_name (key1, channel))"

definition group_layers :: "string list \<Rightarrow> layers" where
  "group_layers sourceChannels = foldl add_channel [] sourceChannels"


section \<open>The host session\<close>

text \<open>
  The script drives a compositing host through handles. A tool handle is the index of the
  tool in the host's store; the host alone makes handles, so every handle the script holds
  is inside the store. The record \<open>tool\<close> keeps what the script reads or writes of a tool:
  \<^item> \<open>clip_name\<close> and \<open>clip_format\<close> are the entries \<open>TOOLST_Clip_Name[1]\<close> and
    \<open>TOOLST_Clip_FormatName[1]\<close> of \<open>GetAttrs()\<close>;
  \<^item> \<open>channel_ids\<close> are the values of \<open>INPIDT_ComboControl_ID\<close> of the \<open>RedName\<close> input;
  \<^item> \<open>part_ids\<close> is \<open>None\<close> when \<open>Clip1.OpenEXRFormat.Part\<close> is \<open>None\<close>, and otherwise holds the
    values of \<open>INPIDT_ComboControl_ID\<close> of that input;
  \<^item> \<open>fmt\<close> is the list of assignments made to the inputs of \<open>Clip1.OpenEXRFormat\<close>, the
    latest last; the value of an input is that of its latest assignment (\<open>fmt_value\<close>);
  \<^item> \<open>pos\<close> is the position in the flow view, taken as exact numbers.
  Calls of the host are taken to succeed.
\<close>

record tool =
  reg_id :: string
  tool_name :: string
  name_set :: bool
  clip_name :: string
  clip_format :: string
  channel_ids :: "string list"
  part_ids :: "string list option"
  fmt :: "(string \<times> string) list"
  global_in :: int
  global_out :: int
  gamma_space :: int
  input_tool :: "nat option"
  pos :: "real \<times> real"

datatype pyval = PyNone | PyBool bool | PyInt int | PyStr string | PyTool nat

text \<open>Truth value of a Python object; a tool handle is an object, hence true.\<close>

fun truthy :: "pyval \<Rightarrow> bool" where
  "truthy PyNone = False"
| "truthy (PyBool b) = b"
| "truthy (PyInt i) = (i \<noteq> 0)"
| "truthy (PyStr s) = (s \<noteq> [])"
| "truthy (PyTool t) = True"

text \<open>\<open>hasattr(result, 'GetAttrs')\<close>: only a tool handle has it; \<open>as_tool\<close> gives the handle.\<close>

fun as_tool :: "pyval \<Rightarrow> nat option" where
  "as_tool (PyTool t) = Some t"
| "as_tool v = None"

datatype level = DEBUG | INFO | ERROR

datatype log_arg = Str string | Num nat | Val pyval

text \<open>
  A log record is kept as its level, its message template and its arguments; rendering is
  the logging library's.
\<close>

type_synonym log_record = "level \<times> string \<times> log_arg list"

datatype session_call = StartUndo string | Lock | Unlock | EndUndo bool

text \<open>
  The world is the composition \<open>comp\<close> (its tools, the handles of the selected ones, and the
  lock and undo calls it has received, in order) together with the records sent to the
  logger \<open>pa.splitexr\<close>.
\<close>

record world =
  tools :: "tool list"
  selected :: "nat list"
  session :: "session_call list"
  log :: "log_record list"

definition logger :: "level \<Rightarrow> string \<Rightarrow> log_arg list \<Rightarrow> world \<Rightarrow> world" where
  "logger lvl msg args w = w\<lparr>log := log w @ [(lvl, msg, args)]\<rparr>"

definition get_tool :: "world \<Rightarrow> nat \<Rightarrow> tool" where
  "get_tool w t = tools w ! t"

definition update_tool :: "nat \<Rightarrow> (tool \<Rightarrow> tool) \<Rightarrow> world \<Rightarrow> world" where
  "update_tool t f w = w\<lparr>tools := (tools w)[t := f (tools w ! t)]\<rparr>"

text \<open>
  A tool the host has just made. The script reads none of the attributes the host derives
  for it, so they start empty.
\<close>

definition new_tool :: "string \<Rightarrow> string \<Rightarrow> tool" where
  "new_tool reg clip =
     \<lparr>reg_id = reg, tool_name = [], name_set = False, clip_name = clip, clip_format = [],
      channel_ids = [], part_ids = None, fmt = [], global_in = 0, global_out = 0,
      gamma_space = 0, input_tool = None, pos = (0, 0)\<rparr>"

text \<open>\<open>comp.Loader({"Clip": clip})\<close> and \<open>comp.AddTool(reg)\<close>: the new handle and the new world.\<close>

definition comp_Loader :: "string \<Rightarrow> world \<Rightarrow> nat \<times> world" where
  "comp_Loader clip w = (length (tools w), w\<lparr>tools := tools w @ [new_tool ''Loader'' clip]\<rparr>)"

definition comp_AddTool :: "string \<Rightarrow> world \<Rightarrow> nat \<times> world" where
  "comp_AddTool reg w = (length (tools w), w\<lparr>tools := tools w @ [new_tool reg []]\<rparr>)"

definition comp_StartUndo :: "string \<Rightarrow> world \<Rightarrow> world" where
  "comp_StartUndo name w = w\<lparr>session := session w @ [StartUndo name]\<rparr>"

definition comp_Lock :: "world \<Rightarrow> world" where
  "comp_Lock w = w\<lparr>session := session w @ [Lock]\<rparr>"

definition comp_Unlock :: "world \<Rightarrow> world" where
  "comp_Unlock w = w\<lparr>session := session w @ [Unlock]\<rparr>"

definition comp_EndUndo :: "bool \<Rightarrow> world \<Rightarrow> world" where
  "comp_EndUndo keep w = w\<lparr>session := session w @ [EndUndo keep]\<rparr>"

text \<open>\<open>fmt[key] = value\<close>, and the value an input holds.\<close>

definition set_fmt :: "nat \<Rightarrow> string \<Rightarrow> string \<Rightarrow> world \<Rightarrow> world" where
  "set_fmt t key v w = update_tool t (\<lambda>x. x\<lparr>fmt := fmt x @ [(key, v)]\<rparr>) w"

definition fmt_value :: "tool \<Rightarrow> string \<Rightarrow> string option" where
  "fmt_value x key = map_of (rev (fmt x)) key"

definition set_global_in :: "nat \<Rightarrow> int \<Rightarrow> world \<Rightarrow> world" where
  "set_global_in t v w = update_tool t (\<lambda>x. x\<lparr>global_in := v\<rparr>) w"

definition set_global_out :: "nat \<Rightarrow> int \<Rightarrow> world \<Rightarrow> world" where
  "set_global_out t v w = update_tool t (\<lambda>x. x\<lparr>global_out := v\<rparr>) w"

definition set_gamma_space :: "nat \<Rightarrow> int \<Rightarrow> world \<Rightarrow> world" where
  "set_gamma_space t v w = update_tool t (\<lambda>x. x\<lparr>gamma_space := v\<rparr>) w"

definition connect_input :: "nat \<Rightarrow> nat \<Rightarrow> world \<Rightarrow> world" where
  "connect_input t src w = update_tool t (\<lambda>x. x\<lparr>input_tool := Some src\<rparr>) w"

definition flow_SetPos :: "nat \<Rightarrow> real \<Rightarrow> real \<Rightarrow> world \<Rightarrow> world" where
  "flow_SetPos t x y w = update_tool t (\<lambda>z. z\<lparr>pos := (x, y)\<rparr>) w"

section \<open>Util functions\<close>

text \<open>\<open>comp.GetToolList(True, tool_type)\<close>: the selected tools, of the given type if one is given.\<close>

definition get_selected_tools :: "world \<Rightarrow> string option \<Rightarrow> nat list" where
  "get_selected_tools w tool_type =
     (case tool_type of
        None \<Rightarrow> selected w
      | Some ty \<Rightarrow> filter (\<lambda>t. reg_id (get_tool w t) = ty) (selected w))"

definition get_tool_name :: "world \<Rightarrow> nat \<Rightarrow> string" where
  "get_tool_name w t = tool_name (get_tool w t)"

definition set_tool_name :: "nat \<Rightarrow> string \<Rightarrow> world \<Rightarrow> world" where
  "set_tool_name t name w = update_tool t (\<lambda>x. x\<lparr>name_set := True, tool_name := name\<rparr>) w"

definition is_exr_loader :: "world \<Rightarrow> nat \<Rightarrow> bool" where
  "is_exr_loader w t = (clip_format (get_tool w t) = ''OpenEXRFormat'')"

definition is_multipart_exr :: "world \<Rightarrow> nat \<Rightarrow> bool" where
  "is_multipart_exr w t =
     (if \<not> is_exr_loader w t then False else part_ids (get_tool w t) \<noteq> None)"

section \<open>Plugins\<close>

datatype plugin_class = EXRSplitPlugin | DefaultPlugin | CryptomattePlugin | VrayPlugin

definition class_name :: "plugin_class \<Rightarrow> string" where
  "class_name c =
     (case c of EXRSplitPlugin \<Rightarrow> ''EXRSplitPlugin'' | DefaultPlugin \<Rightarrow> ''DefaultPlugin''
      | CryptomattePlugin \<Rightarrow> ''CryptomattePlugin'' | VrayPlugin \<Rightarrow> ''VrayPlugin'')"

type_synonym options = "string \<rightharpoonup> bool"

definition default_options :: "plugin_class \<Rightarrow> (string \<times> bool) list" where
  "default_options c =
     (case c of
        DefaultPlugin \<Rightarrow> [(''alpha_fallback'', False)]
      | VrayPlugin \<Rightarrow> [(''use_aux_channels'', True), (''flip_worldpos_axis'', True)]
      | _ \<Rightarrow> [])"

text \<open>The loop of \<open>EXRSplitPlugin.__init__\<close> over the keys of \<open>default_options\<close>.\<close>

fun merge_defaults :: "(string \<times> bool) list \<Rightarrow> options \<Rightarrow> options" where
  "merge_defaults [] opts = opts"
| "merge_defaults ((key, v) # rest) opts =
     merge_defaults rest (if opts key = None then opts(key \<mapsto> v) else opts)"

text \<open>
  A plugin instance. \<open>made_crypto\<close> is the attribute that \<open>CryptomattePlugin.__init__\<close> adds;
  the other classes do not read it.
\<close>

record plugin =
  plugin_class :: plugin_class
  exr_filename :: string
  loader :: nat
  layers :: layers
  options :: options
  made_crypto :: bool

text \<open>
  \<open>[p(exr_filename, loader, layers, options) for p in plugin_classes]\<close>. Every constructor
  writes its missing defaults into the one dictionary \<open>options\<close> that all instances share, so
  each instance sees the dictionary as the last constructor left it.
\<close>

definition shared_options :: "plugin_class list \<Rightarrow> options \<Rightarrow> options" where
  "shared_options plugin_classes opts =
     foldl (\<lambda>acc c. merge_defaults (default_options c) acc) opts plugin_classes"

definition make_plugins ::
  "plugin_class list \<Rightarrow> string \<Rightarrow> nat \<Rightarrow> layers \<Rightarrow> options \<Rightarrow> plugin list" where
  "make_plugins plugin_classes filename ld ls opts =
     map (\<lambda>c. \<lparr>plugin_class = c, exr_filename = filename, loader = ld, layers = ls,
               options = shared_options plugin_classes opts, made_crypto = False\<rparr>)
         plugin_classes"

subsection \<open>DefaultPlugin\<close>

definition channel_mappings :: "(string \<times> string) list" where
  "channel_mappings =
     [(''r'', ''RedName''), (''g'', ''GreenName''), (''b'', ''BlueName''), (''a'', ''AlphaName''),
      (''u'', ''RedName''), (''v'', ''GreenName''), (''w'', ''BlueName''),
      (''x'', ''RedName''), (''y'', ''GreenName''), (''z'', ''BlueName'')]"

definition CHANNEL_NO_MATCH :: string where
  "CHANNEL_NO_MATCH = ''SomethingThatWontMatchHopefully''"

text \<open>The loop over the channels of the layer (lines 180 to 185).\<close>

fun assign_channels :: "nat \<Rightarrow> channels \<Rightarrow> world \<Rightarrow> world" where
  "assign_channels t [] w = w"
| "assign_channels t ((channel, raw_channel) # rest) w =
     (case map_of channel_mappings channel of
        None \<Rightarrow> assign_channels t rest (logger ERROR ''Unknown channel: {}'' [Str channel] w)
      | Some mapping \<Rightarrow> assign_channels t rest (set_fmt t mapping raw_channel w))"

text \<open>
  The channel list of a layer is a Python list. A list has neither \<open>keys\<close> nor \<open>get\<close>:
  looking either attribute up raises \<open>AttributeError\<close>.
\<close>

definition list_keys :: "'a list \<Rightarrow> error + string list" where
  "list_keys xs = Inl AttributeError"

definition list_get :: "'a list \<Rightarrow> string \<Rightarrow> error + string option" where
  "list_get xs key = Inl AttributeError"

text \<open>Lines 187 to 190. \<open>and\<close> evaluates its right operand only when the left one is true.\<close>

definition alpha_fallback :: "plugin \<Rightarrow> nat \<Rightarrow> channels \<Rightarrow> world \<Rightarrow> (error + unit) \<times> world" where
  "alpha_fallback self new_loader chans w =
     (case options self ''alpha_fallback'' of
        None \<Rightarrow> (Inl KeyError, w)
      | Some enabled \<Rightarrow>
          if enabled then
            (case list_keys chans of
               Inl e \<Rightarrow> (Inl e, w)
             | Inr ks \<Rightarrow>
                 if ''a'' \<notin> set ks then
                   (case (case map_of (layers self) ''default'' of
                            None \<Rightarrow> Inr None
                          | Some default_layer \<Rightarrow> list_get default_layer ''a'') of
                      Inl e \<Rightarrow> (Inl e, w)
                    | Inr None \<Rightarrow> (Inr (), w)
                    | Inr (Some fallback_alpha_channel) \<Rightarrow>
                        if fallback_alpha_channel \<noteq> []
                        then (Inr (), set_fmt new_loader ''AlphaName'' fallback_alpha_channel w)
                        else (Inr (), w))
                 else (Inr (), w))
          else (Inr (), w))"

definition DefaultPlugin_process_layer ::
  "plugin \<Rightarrow> string \<Rightarrow> channels \<Rightarrow> world \<Rightarrow> (error + pyval) \<times> world" where
  "DefaultPlugin_process_layer self layer_name chans w =
     (let w1 = logger INFO ''Creating new loader for layer: %s'' [Str layer_name] w;
          (new_loader, w2) = comp_Loader (exr_filename self) w1;
          w3 = set_fmt new_loader ''RedName'' CHANNEL_NO_MATCH w2;
          w4 = set_fmt new_loader ''GreenName'' CHANNEL_NO_MATCH w3;
          w5 = set_fmt new_loader ''BlueName'' CHANNEL_NO_MATCH w4;
          w6 = set_fmt new_loader ''AlphaName'' CHANNEL_NO_MATCH w5;
          w7 = set_fmt new_loader ''ZName'' CHANNEL_NO_MATCH w6;
          w8 = assign_channels new_loader chans w7
      in case alpha_fallback self new_loader chans w8 of
           (Inl e, w9) \<Rightarrow> (Inl e, w9)
         | (Inr u, w9) \<Rightarrow>
             (let w10 = set_global_in new_loader (global_in (get_tool w9 (loader self))) w9;
                  w11 = set_global_out new_loader (global_out (get_tool w10 (loader self))) w10;
                  name = layer_name;
                  w12 = set_tool_name new_loader name w11
              in (Inr (PyTool new_loader), w12)))"

subsection \<open>CryptomattePlugin\<close>

definition CryptomattePlugin_process_layer ::
  "plugin \<Rightarrow> string \<Rightarrow> channels \<Rightarrow> world \<Rightarrow> (error + pyval) \<times> plugin \<times> world" where
  "CryptomattePlugin_process_layer self layer_name chans w =
     (if \<not> contains (lower layer_name) ''crypto'' then (Inr (PyBool False), self, w)
      else
        (let w1 = logger INFO ''Cryptomatte: %s'' [Str layer_name] w
         in if made_crypto self then (Inr (PyBool True), self, w1)
            else
              (let w2 = logger INFO ''Creating Cryptomatte node.'' [] w1;
                   (new_tool, w3) = comp_AddTool ''Fuse.Cryptomatte'' w2;
                   w4 = connect_input new_tool (loader self) w3;
                   exr_name = splitext_root (basename (exr_filename self));
                   name = ''Cryp_'' @ exr_name;
                   w5 = set_tool_name new_tool name w4
               in (Inr (PyTool new_tool), self\<lparr>made_crypto := True\<rparr>, w5))))"

subsection \<open>VrayPlugin\<close>

definition pos_remappings :: "(string \<times> string) list" where
  "pos_remappings = [(''r'', ''x''), (''g'', ''y''), (''b'', ''z'')]"

definition layer_name_mappings :: "(string \<times> string) list" where
  "layer_name_mappings = [(''normal'', ''NormName''), (''pos'', ''PosName''), (''vel'', ''VelName'')]"

text \<open>\<open>next((l for l in self.layer_name_mappings if l in layer_name.lower()), None)\<close>\<close>

definition find_mapping_name :: "string \<Rightarrow> string option" where
  "find_mapping_name layer_name =
     List.find (\<lambda>l. contains (lower layer_name) l) (map fst layer_name_mappings)"

text \<open>
  The loop over the channels of the layer (lines 259 to 276): \<open>vray_channel\<close> is its body for
  one channel, \<open>vray_channels\<close> the loop.
\<close>

definition vray_channel ::
  "plugin \<Rightarrow> string \<Rightarrow> string \<Rightarrow> string \<Rightarrow> string \<times> string \<Rightarrow> world \<Rightarrow> (error + unit) \<times> world" where
  "vray_channel self layer_name mapping_name mapping entry w =
     (let (channel, raw_channel) = entry;
          channel1 = (case map_of pos_remappings channel of None \<Rightarrow> channel | Some c \<Rightarrow> c);
          r = (if mapping_name = ''pos'' then
                 (let w1 = logger INFO ''World Position: %s'' [Str layer_name] w
                  in case options self ''flip_worldpos_axis'' of
                       None \<Rightarrow> (Inl KeyError, w1)
                     | Some flip \<Rightarrow>
                         if flip then
                           (let w2 = logger INFO ''Doing 3DSMax WorldPos tweaks for channel: %s''
                                       [Str channel1] w1
                            in if channel1 = ''z''
                               then (Inr ''y'', logger INFO ''Flipping Z axis to Y'' [] w2)
                               else if channel1 = ''y''
                               then (Inr ''z'', logger INFO ''Flipping Y axis to Z'' [] w2)
                               else (Inr channel1, w2))
                         else (Inr channel1, w1))
               else (Inr channel1, w))
      in case r of
           (Inl e, w3) \<Rightarrow> (Inl e, w3)
         | (Inr channel2, w3) \<Rightarrow>
             (let channel3 = upper channel2;
                  fusion_name = channel3 @ mapping;
                  w4 = logger INFO ''{} -> {}'' [Str fusion_name, Str raw_channel] w3
              in (Inr (), set_fmt (loader self) fusion_name raw_channel w4)))"

fun vray_channels ::
  "plugin \<Rightarrow> string \<Rightarrow> string \<Rightarrow> string \<Rightarrow> channels \<Rightarrow> world \<Rightarrow> (error + unit) \<times> world" where
  "vray_channels self layer_name mapping_name mapping [] w = (Inr (), w)"
| "vray_channels self layer_name mapping_name mapping (entry # rest) w =
     (case vray_channel self layer_name mapping_name mapping entry w of
        (Inl e, w1) \<Rightarrow> (Inl e, w1)
      | (Inr u, w1) \<Rightarrow> vray_channels self layer_name mapping_name mapping rest w1)"

definition VrayPlugin_process_layer ::
  "plugin \<Rightarrow> string \<Rightarrow> channels \<Rightarrow> world \<Rightarrow> (error + pyval) \<times> world" where
  "VrayPlugin_process_layer self layer_name chans w =
     (case options self ''use_aux_channels'' of
        None \<Rightarrow> (Inl KeyError, w)
      | Some use_aux_channels \<Rightarrow>
          if \<not> use_aux_channels then (Inr (PyBool False), w)
          else
            (let w1 = logger INFO ''Native Fusion Layer: %s'' [Str layer_name] w
             in case find_mapping_name layer_name of
                  None \<Rightarrow> (Inr (PyBool False), w1)
                | Some mapping_name \<Rightarrow>
                    (case map_of layer_name_mappings mapping_name of
                       None \<Rightarrow> (Inl KeyError, w1)
                     | Some mapping \<Rightarrow>
                         (case vray_channels self layer_name mapping_name mapping chans w1 of
                            (Inl e, w2) \<Rightarrow> (Inl e, w2)
                          | (Inr u, w2) \<Rightarrow> (Inr (PyBool True), w2)))))"

subsection \<open>The method \<open>process_layer\<close> of an instance, by its class\<close>

definition process_layer ::
  "plugin \<Rightarrow> string \<Rightarrow> channels \<Rightarrow> world \<Rightarrow> (error + pyval) \<times> plugin \<times> world" where
  "process_layer self layer_name chans w =
     (case plugin_class self of
        EXRSplitPlugin \<Rightarrow> (Inl NotImplementedError, self, w)
      | DefaultPlugin \<Rightarrow>
          (case DefaultPlugin_process_layer self layer_name chans w of (r, w') \<Rightarrow> (r, self, w'))
      | CryptomattePlugin \<Rightarrow> CryptomattePlugin_process_layer self layer_name chans w
      | VrayPlugin \<Rightarrow>
          (case VrayPlugin_process_layer self layer_name chans w of (r, w') \<Rightarrow> (r, self, w')))"

section \<open>Main EXR split functions\<close>

text \<open>
  The inner loop of \<open>split_multilayer_exr\<close> (lines 324 to 336) for one layer: the plugins
  still to try, the list \<open>new_tools\<close> so far, and the world. It returns the plugin instances
  as the calls left them.
\<close>

fun run_plugins ::
  "string \<Rightarrow> channels \<Rightarrow> plugin list \<Rightarrow> nat list \<Rightarrow> world
     \<Rightarrow> (error + nat list) \<times> plugin list \<times> world" where
  "run_plugins layer_name chans [] new_tools w = (Inr new_tools, [], w)"
| "run_plugins layer_name chans (p # rest) new_tools w =
     (let w1 = logger DEBUG ''Attempting to use plugin %s on layer %s''
                 [Str (class_name (plugin_class p)), Str layer_name] w
      in case process_layer p layer_name chans w1 of
           (Inl e, p', w2) \<Rightarrow> (Inl e, p' # rest, w2)
         | (Inr result, p', w2) \<Rightarrow>
             (let w3 = logger DEBUG ''Result: {}'' [Val result] w2
              in if truthy result then
                   (let w4 = logger DEBUG ''There was a result.'' [] w3;
                        (new_tools', w5) =
                           (case as_tool result of
                              Some t \<Rightarrow> (new_tools @ [t], logger DEBUG ''The result was a new tool.'' [] w4)
                            | None \<Rightarrow> (new_tools, w4));
                        w6 = logger DEBUG ''Plugin %s successfully processed layer %s''
                               [Str (class_name (plugin_class p)), Str layer_name] w5
                    in (Inr new_tools', p' # rest, w6))
                 else
                   (let w4 = logger DEBUG ''Plugin %s rejected layer %s''
                               [Str (class_name (plugin_class p)), Str layer_name] w3
                    in case run_plugins layer_name chans rest new_tools w4 of
                         (r, rest', w5) \<Rightarrow> (r, p' # rest', w5))))"

text \<open>The outer loop over \<open>layers.items()\<close> (lines 319 to 336).\<close>

fun run_layers ::
  "layers \<Rightarrow> plugin list \<Rightarrow> nat list \<Rightarrow> world \<Rightarrow> (error + nat list) \<times> plugin list \<times> world" where
  "run_layers [] plugins new_tools w = (Inr new_tools, plugins, w)"
| "run_layers ((layer_name, chans) # rest) plugins new_tools w =
     (let w1 = logger INFO ''Layer: %s'' [Str layer_name] w
      in case run_plugins layer_name chans plugins new_tools w1 of
           (Inl e, plugins', w2) \<Rightarrow> (Inl e, plugins', w2)
         | (Inr new_tools', plugins', w2) \<Rightarrow> run_layers rest plugins' new_tools' w2)"

definition split_multilayer_exr ::
  "world \<Rightarrow> nat \<Rightarrow> plugin_class list \<Rightarrow> options \<Rightarrow> (error + nat list) \<times> world" where
  "split_multilayer_exr w ld plugin_classes opts =
     (let filename = clip_name (get_tool w ld);
          sourceChannels = channel_ids (get_tool w ld);
          ls = group_layers sourceChannels;
          w1 = logger DEBUG ''%s layers found.'' [Num (length ls)] w;
          plugins = make_plugins plugin_classes filename ld ls opts;
          new_tools = []
      in case run_layers ls plugins new_tools w1 of
           (Inl e, plugins', w2) \<Rightarrow> (Inl e, w2)
         | (Inr new_tools', plugins', w2) \<Rightarrow>
             (Inr new_tools', logger DEBUG ''Finished processing all layers.'' [] w2))"

text \<open>The loop of \<open>split_multipart_exr\<close> over the part names (lines 361 to 371).\<close>

fun part_loaders :: "nat \<Rightarrow> string \<Rightarrow> string list \<Rightarrow> nat list \<Rightarrow> world \<Rightarrow> nat list \<times> world" where
  "part_loaders tool filename [] new_tools w = (new_tools, w)"
| "part_loaders tool filename (name # rest) new_tools w =
     (let (new_loader, w1) = comp_Loader filename w;
          w2 = set_tool_name new_loader name w1;
          w3 = set_gamma_space new_loader (gamma_space (get_tool w2 tool)) w2;
          w4 = set_fmt new_loader ''Part'' name w3;
          w5 = set_global_in new_loader (global_in (get_tool w4 tool)) w4;
          w6 = set_global_out new_loader (global_out (get_tool w5 tool)) w5
      in part_loaders tool filename rest (new_tools @ [new_loader]) w6)"

text \<open>
  \<open>split_multipart_exr\<close> returns \<open>None\<close> for a tool that is no EXR loader, a list otherwise.
  Where \<open>Part\<close> is \<open>None\<close>, \<open>inp.GetAttrs()\<close> raises \<open>AttributeError\<close>.
\<close>

definition split_multipart_exr ::
  "world \<Rightarrow> nat \<Rightarrow> plugin_class list \<Rightarrow> options \<Rightarrow> (error + nat list option) \<times> world" where
  "split_multipart_exr w tool plugin_classes opts =
     (if \<not> is_exr_loader w tool then (Inr None, w)
      else
        (let filename = clip_name (get_tool w tool)
         in case part_ids (get_tool w tool) of
              None \<Rightarrow> (Inl AttributeError, w)
            | Some channel_table \<Rightarrow>
                (case part_loaders tool filename channel_table [] w of
                   (new_tools, w1) \<Rightarrow> (Inr (Some new_tools), w1))))"

text \<open>
  The loop of \<open>arrange_tools_table\<close> over \<open>enumerate(tools)\<close>, from index \<open>i\<close> on. For the
  indices of a list, \<open>int(i / max_rows)\<close> is \<open>i div max_rows\<close> and \<open>int(i % max_rows)\<close> is
  \<open>i mod max_rows\<close>.
\<close>

fun place_tools :: "real \<Rightarrow> real \<Rightarrow> real \<Rightarrow> nat \<Rightarrow> nat \<Rightarrow> nat list \<Rightarrow> world \<Rightarrow> world" where
  "place_tools org_x_pos org_y_pos col_spacing max_rows i [] w = w"
| "place_tools org_x_pos org_y_pos col_spacing max_rows i (new_loader # rest) w =
     (let col = i div max_rows;
          row = i mod max_rows
      in place_tools org_x_pos org_y_pos col_spacing max_rows (Suc i) rest
           (flow_SetPos new_loader (org_x_pos + real col * col_spacing) (org_y_pos + real row) w))"

text \<open>
  \<open>arrange_tools_table(comp, tools, col_spacing, max_rows, origin_tool)\<close>; \<open>tools[0]\<close> of an
  empty list raises \<open>IndexError\<close>. The parameter \<open>max_rows\<close> is overwritten with 20.
\<close>

definition arrange_tools_table ::
  "world \<Rightarrow> nat list \<Rightarrow> real \<Rightarrow> nat \<Rightarrow> nat option \<Rightarrow> (error + unit) \<times> world" where
  "arrange_tools_table w tls col_spacing max_rows origin_tool =
     (case (case origin_tool of
              Some t \<Rightarrow> Inr t
            | None \<Rightarrow> (case tls of [] \<Rightarrow> Inl IndexError | t # ts \<Rightarrow> Inr t)) of
        Inl e \<Rightarrow> (Inl e, w)
      | Inr origin \<Rightarrow>
          (let (org_x_pos, org_y_pos) = pos (get_tool w origin);
               max_rows1 = 20
           in (Inr (), place_tools org_x_pos org_y_pos col_spacing max_rows1 0 tls w)))"

text \<open>
  \<open>split_exr\<close>. The local variable \<open>new_tools\<close> is bound in the two branches only: the outer
  \<open>option\<close> of \<open>bound\<close> says whether it is bound, the inner one is the value \<open>None\<close> or a list.
  Reading it unbound raises \<open>UnboundLocalError\<close>, a subclass of \<open>NameError\<close>.
\<close>

definition split_exr ::
  "world \<Rightarrow> nat \<Rightarrow> plugin_class list \<Rightarrow> options \<Rightarrow> (error + unit) \<times> world" where
  "split_exr w tool plugin_classes opts =
     (let (bound, w1) =
            (if is_multipart_exr w tool then
               (case split_multipart_exr w tool plugin_classes opts of
                  (Inl e, w') \<Rightarrow> (Inl e, w')
                | (Inr new_tools, w') \<Rightarrow> (Inr (Some new_tools), w'))
             else if is_exr_loader w tool then
               (case split_multilayer_exr w tool plugin_classes opts of
                  (Inl e, w') \<Rightarrow> (Inl e, w')
                | (Inr new_tools, w') \<Rightarrow> (Inr (Some (Some new_tools)), w'))
             else (Inr None, w))
      in case bound of
           Inl e \<Rightarrow> (Inl e, w1)
         | Inr None \<Rightarrow> (Inl UnboundLocalError, w1)
         | Inr (Some None) \<Rightarrow> (Inr (), w1)
         | Inr (Some (Some new_tools)) \<Rightarrow>
             if new_tools = [] then (Inr (), w1)
             else arrange_tools_table w1 new_tools 1 20 (Some tool))"

text \<open>The loop of \<open>split_exr_script\<close> over the selected loaders: the body of \<open>try\<close>.\<close>

fun split_selected ::
  "nat list \<Rightarrow> plugin_class list \<Rightarrow> options \<Rightarrow> world \<Rightarrow> (error + unit) \<times> world" where
  "split_selected [] plugin_classes opts w = (Inr (), w)"
| "split_selected (tool # rest) plugin_classes opts w =
     (let w1 = logger DEBUG ''Tool: {}'' [Str (get_tool_name w tool)] w
      in case split_exr w1 tool plugin_classes opts of
           (Inl e, w2) \<Rightarrow> (Inl e, w2)
         | (Inr u, w2) \<Rightarrow> split_selected rest plugin_classes opts w2)"

text \<open>
  \<open>split_exr_script\<close>: the \<open>finally\<close> block runs on the world the \<open>try\<close> body left, whether
  the body returned or raised, and the outcome of the body is the outcome of the script.
  The dictionary \<open>options\<close> starts empty; the constructors only add their defaults to it, which
  adding again does not change, so every tool is split with the same options.
\<close>

definition split_exr_script :: "world \<Rightarrow> (error + unit) \<times> world" where
  "split_exr_script w =
     (let w1 = logger DEBUG ''Attempting to split EXR from selected tools.'' [] w;
          opts = Map.empty;
          plugin_classes = [CryptomattePlugin, DefaultPlugin];
          w2 = comp_StartUndo ''Split EXR'' w1;
          w3 = comp_Lock w2;
          (outcome, w4) =
             split_selected (get_selected_tools w3 (Some ''Loader'')) plugin_classes opts w3;
          w5 = comp_Unlock w4;
          w6 = comp_EndUndo True w5
      in (outcome, w6))"

section \<open>The grouping as the specification words it\<close>

text \<open>
  The layer of an identifier and its channel key, by the number of its dot-separated
  segments; the layers in first-seen order; each layer with the entries of its identifiers
  in the order of the input.
\<close>

definition spec_layer_name :: "string \<Rightarrow> string" where
  "spec_layer_name c =
     (let segs = split (CHR ''.'') c
      in if length segs > 1 then join ''.'' (butlast segs) else ''default'')"

definition spec_channel_key :: "string \<Rightarrow> string" where
  "spec_channel_key c =
     (let segs = split (CHR ''.'') c
      in if length segs > 1 then lower (last segs) else lower c)"

fun first_seen :: "'a list \<Rightarrow> 'a list" where
  "first_seen [] = []"
| "first_seen (x # xs) = x # filter (\<lambda>y. y \<noteq> x) (first_seen xs)"

definition spec_layers :: "string list \<Rightarrow> layers" where
  "spec_layers cs =
     map (\<lambda>l. (l, map (\<lambda>c. (spec_channel_key c, c)) (filter (\<lambda>c. spec_layer_name c = l) cs)))
         (first_seen (map spec_layer_name cs))"

section \<open>Notions for stating the properties\<close>

text \<open>\<open>channel in self.channel_mappings\<close>\<close>

definition known_channel :: "string \<times> string \<Rightarrow> bool" where
  "known_channel entry \<longleftrightarrow> fst entry \<in> set (map fst channel_mappings)"


text \<open>
  What the dispatch loop does with one plugin before it looks at the result: the record of
  the attempt, the call, the record of the result. \<open>None\<close> when the call raises.
\<close>

definition plugin_call ::
  "string \<Rightarrow> channels \<Rightarrow> plugin \<Rightarrow> world \<Rightarrow> (pyval \<times> plugin \<times> world) option" where
  "plugin_call layer_name chans p w =
     (case process_layer p layer_name chans
             (logger DEBUG ''Attempting to use plugin %s on layer %s''
                [Str (class_name (plugin_class p)), Str layer_name] w) of
        (Inl e, p', w2) \<Rightarrow> None
      | (Inr result, p', w2) \<Rightarrow> Some (result, p', logger DEBUG ''Result: {}'' [Val result] w2))"


text \<open>
  The world the dispatch loop leaves when the plugin \<open>p\<close> has accepted the layer with
  \<open>result\<close>: the world after the call with the records of lines 329 to 333.
\<close>

definition accepted_world :: "plugin \<Rightarrow> string \<Rightarrow> pyval \<Rightarrow> world \<Rightarrow> world" where
  "accepted_world p layer_name result w3 =
     logger DEBUG ''Plugin %s successfully processed layer %s''
       [Str (class_name (plugin_class p)), Str layer_name]
       (case as_tool result of
          Some t \<Rightarrow> logger DEBUG ''The result was a new tool.'' []
                      (logger DEBUG ''There was a result.'' [] w3)
        | None \<Rightarrow> logger DEBUG ''There was a result.'' [] w3)"

text \<open>
  The attributes of a tool that no call of the script changes, and the relation between a
  world and a later one: the lock and undo calls and the selection are the same, the store
  has grown at its end only, every earlier tool keeping its fixed attributes, and the log
  has grown at its end only.
\<close>

definition static :: "tool \<Rightarrow> string \<times> string \<times> string list option" where
  "static x = (reg_id x, clip_format x, part_ids x)"

definition frame :: "world \<Rightarrow> world \<Rightarrow> bool" where
  "frame w w' \<longleftrightarrow>
     session w' = session w \<and> selected w' = selected w
     \<and> prefix (map static (tools w)) (map static (tools w'))
     \<and> prefix (log w) (log w')"

text \<open>
  The matte nodes of the store, those among the recorded new tools, whether a layer name
  is one the matte plugin accepts, and whether the first matte plugin of a list of
  instances has its node still to make (1) or not (0).
\<close>

definition crypto_count :: "world \<Rightarrow> nat" where
  "crypto_count w = length (filter (\<lambda>x. reg_id x = ''Fuse.Cryptomatte'') (tools w))"

definition is_crypto_tool :: "world \<Rightarrow> nat \<Rightarrow> bool" where
  "is_crypto_tool w t \<longleftrightarrow> reg_id (get_tool w t) = ''Fuse.Cryptomatte''"

definition recorded_crypto :: "world \<Rightarrow> nat list \<Rightarrow> nat" where
  "recorded_crypto w new_tools = length (filter (is_crypto_tool w) new_tools)"

definition is_crypto_layer :: "string \<Rightarrow> bool" where
  "is_crypto_layer layer_name \<longleftrightarrow> contains (lower layer_name) ''crypto''"

definition pending :: "plugin list \<Rightarrow> nat" where
  "pending ps =
     (case List.find (\<lambda>p. plugin_class p = CryptomattePlugin) ps of
        None \<Rightarrow> 0
      | Some p \<Rightarrow> if made_crypto p then 0 else 1)"

text \<open>
  The fixed attributes of the tool that a call of \<open>process_layer\<close> makes, if it makes one, and
  the class and flag of a plugin instance.
\<close>

definition created :: "plugin \<Rightarrow> string \<Rightarrow> (string \<times> string \<times> string list option) list" where
  "created p layer_name =
     (if plugin_class p = DefaultPlugin then [(''Loader'', [], None)]
      else if plugin_class p = CryptomattePlugin \<and> is_crypto_layer layer_name \<and> \<not> made_crypto p
      then [(''Fuse.Cryptomatte'', [], None)]
      else [])"

definition plugin_sig :: "plugin \<Rightarrow> plugin_class \<times> bool" where
  "plugin_sig p = (plugin_class p, made_crypto p)"

section \<open>Example worlds\<close>

text \<open>An origin loader at position (3, 4) followed by twenty-five new loaders.\<close>

definition grid_world :: world where
  "grid_world =
     \<lparr>tools = (new_tool ''Loader'' ''beauty.exr'')\<lparr>pos := (3, 4)\<rparr>
                # replicate 25 (new_tool ''Loader'' ''beauty.exr''),
      selected = [0], session = [], log = []\<rparr>"

text \<open>
  An EXR loader as the host reports it, and worlds with one selected loader each: a
  multi-part EXR file, a file that is not EXR, a multi-layer EXR file with two layers
  whose names contain \<open>crypto\<close>, and one with the layers \<open>default\<close> (r, g, b, a) and \<open>spec\<close>
  (r, g, b).
\<close>

definition exr_loader :: "string \<Rightarrow> string list \<Rightarrow> string list option \<Rightarrow> tool" where
  "exr_loader clip chans parts =
     (new_tool ''Loader'' clip)
       \<lparr>tool_name := ''Loader1'', clip_format := ''OpenEXRFormat'', channel_ids := chans,
        part_ids := parts, global_in := 1, global_out := 100, pos := (3, 4)\<rparr>"

definition multipart_world :: world where
  "multipart_world =
     \<lparr>tools = [exr_loader ''/shots/parts.exr'' [''R'', ''G'', ''B''] (Some [''beauty'', ''depth''])],
      selected = [0], session = [], log = []\<rparr>"

definition jpeg_world :: world where
  "jpeg_world =
     \<lparr>tools = [(new_tool ''Loader'' ''/shots/plate.jpg'')\<lparr>clip_format := ''JpegFormat''\<rparr>],
      selected = [0], session = [], log = []\<rparr>"

definition crypto_world :: world where
  "crypto_world =
     \<lparr>tools = [exr_loader ''/shots/beauty.exr'' [''crypto00.R'', ''Crypto01.R''] None],
      selected = [0], session = [], log = []\<rparr>"

definition alpha_world :: world where
  "alpha_world =
     \<lparr>tools = [exr_loader ''/shots/beauty.exr''
                 [''R'', ''G'', ''B'', ''A'', ''spec.R'', ''spec.G'', ''spec.B''] None],
      selected = [0], session = [], log = []\<rparr>"

text \<open>
  Plugin instances for the loader of \<open>alpha_world\<close>: a default plugin with the option
  \<open>alpha_fallback\<close> as given, a domain-channel plugin with the flip option as given, and a
  fresh matte plugin.
\<close>

definition alpha_plugin :: "bool \<Rightarrow> plugin" where
  "alpha_plugin enabled =
     \<lparr>plugin_class = DefaultPlugin, exr_filename = ''/shots/beauty.exr'', loader = 0,
      layers = group_layers [''R'', ''G'', ''B'', ''A'', ''spec.R'', ''spec.G'', ''spec.B''],
      options = shared_options [DefaultPlugin] (Map.empty(''alpha_fallback'' \<mapsto> enabled)),
      made_crypto = False\<rparr>"


definition matte_plugin :: plugin where
  "matte_plugin =
     \<lparr>plugin_class = CryptomattePlugin, exr_filename = ''/shots/beauty.exr'', loader = 0,
      layers = [], options = Map.empty, made_crypto = False\<rparr>"

section \<open>Strings\<close>

lemma split_nonempty: "split sep s \<noteq> []"
  by (induction s) (auto split: list.splits)

text \<open>Joining the segments gives the string back, and no segment holds the separator.\<close>

lemma join_split: "join [sep] (split sep s) = s"
proof (induction s)
  case Nil
  show ?case by simp
next
  case (Cons c cs)
  obtain seg segs where e: "split sep cs = seg # segs"
    using split_nonempty [of sep cs] by (cases "split sep cs") auto
  with Cons show ?case by (cases segs) auto
qed

lemma split_no_sep: "seg \<in> set (split sep s) \<Longrightarrow> sep \<notin> set seg"
  by (induction s arbitrary: seg) (auto split: list.splits if_splits)

lemma split_single: "length (split sep s) = 1 \<longleftrightarrow> sep \<notin> set s"
  by (induction s) (auto split: list.splits if_splits simp: split_nonempty)

section \<open>The channel-name parser\<close>

lemma set_first_seen: "set (first_seen xs) = set xs"
  by (induction xs) auto

lemma distinct_first_seen: "distinct (first_seen xs)"
  by (induction xs) (auto simp: set_first_seen)

lemma first_seen_snoc:
  "first_seen (xs @ [y]) = (if y \<in> set xs then first_seen xs else first_seen xs @ [y])"
  by (induction xs) (auto simp: set_first_seen)

lemma add_channel_spec:
  "add_channel ls c =
     layer_append
       (if spec_layer_name c \<in> set (map fst ls) then ls else ls @ [(spec_layer_name c, [])])
       (spec_layer_name c) (spec_channel_key c, c)"
  by (simp add: add_channel_def spec_layer_name_def spec_channel_key_def
        namespace_separator_def Let_def)

lemma map_fst_spec_layers: "map fst (spec_layers cs) = first_seen (map spec_layer_name cs)"
  by (simp add: spec_layers_def comp_def)

lemma add_channel_step: "add_channel (spec_layers xs) c = spec_layers (xs @ [c])"
proof (cases "spec_layer_name c \<in> set (map spec_layer_name xs)")
  case True
  then show ?thesis
    unfolding add_channel_spec map_fst_spec_layers set_first_seen
    by (simp add: spec_layers_def layer_append_def first_seen_snoc)
next
  case False
  then have "\<forall>x \<in> set xs. spec_layer_name x \<noteq> spec_layer_name c"
    by (metis image_eqI set_map)
  then have "filter (\<lambda>x. spec_layer_name x = spec_layer_name c) xs = []"
    by (simp add: filter_empty_conv)
  with False show ?thesis
    unfolding add_channel_spec map_fst_spec_layers set_first_seen
    by (auto simp add: spec_layers_def layer_append_def first_seen_snoc set_first_seen)
qed

lemma foldl_add_channel: "foldl add_channel (spec_layers xs) ys = spec_layers (xs @ ys)"
proof (induction ys arbitrary: xs)
  case Nil
  show ?case by simp
next
  case (Cons y ys)
  have "foldl add_channel (spec_layers xs) (y # ys) =
        foldl add_channel (spec_layers (xs @ [y])) ys"
    by (simp add: add_channel_step)
  also have "\<dots> = spec_layers ((xs @ [y]) @ ys)"
    by (rule Cons.IH)
  finally show ?case by simp
qed

lemma group_layers_spec: "group_layers cs = spec_layers cs"
  using foldl_add_channel [of "[]" cs] by (simp add: group_layers_def spec_layers_def)

text \<open>
  C2. For every sequence of raw channel identifiers the parser yields the grouping of the
  specification: an identifier of more than one dot-separated segment goes to the layer
  named by all its segments but the last, joined by dots, under the lower-cased last segment;
  an identifier of one segment goes to the layer \<open>default\<close> under the lower-cased identifier;
  the entries of a layer keep the order of the input; the layers come in first-seen order,
  each once.
\<close>

theorem parser_groups_layers:
  "group_layers cs = spec_layers cs
   \<and> map fst (group_layers cs) = first_seen (map spec_layer_name cs)
   \<and> distinct (map fst (group_layers cs))"
  by (simp add: group_layers_spec map_fst_spec_layers distinct_first_seen)

theorem parser_groups_layers_witness:
  "group_layers [''VRayNormal.R'', ''VRayNormal.G'', ''Z'', ''VRayNormal.B''] =
     [(''VRayNormal'',
        [(''r'', ''VRayNormal.R''), (''g'', ''VRayNormal.G''), (''b'', ''VRayNormal.B'')]),
      (''default'', [(''z'', ''Z'')])]"
  using parser_groups_layers [of "[''VRayNormal.R'', ''VRayNormal.G'', ''Z'', ''VRayNormal.B'']"]
  by (simp add: spec_layers_def spec_layer_name_def spec_channel_key_def lower_def
        lower_char_def)

section \<open>The host primitives\<close>

lemma logger_simps [simp]:
  "tools (logger lvl msg args w) = tools w"
  "selected (logger lvl msg args w) = selected w"
  "session (logger lvl msg args w) = session w"
  "log (logger lvl msg args w) = log w @ [(lvl, msg, args)]"
  by (simp_all add: logger_def)

lemma get_tool_logger [simp]: "get_tool (logger lvl msg args w) t = get_tool w t"
  by (simp add: get_tool_def)

lemma update_tool_simps [simp]:
  "length (tools (update_tool t f w)) = length (tools w)"
  "selected (update_tool t f w) = selected w"
  "session (update_tool t f w) = session w"
  "log (update_tool t f w) = log w"
  by (simp_all add: update_tool_def)

lemma get_tool_update_tool:
  "get_tool (update_tool t f w) u =
     (if u = t \<and> t < length (tools w) then f (get_tool w t) else get_tool w u)"
  by (cases "t < length (tools w)") (auto simp: get_tool_def update_tool_def nth_list_update list_update_beyond)

lemma flow_SetPos_simps [simp]:
  "length (tools (flow_SetPos t x y w)) = length (tools w)"
  "selected (flow_SetPos t x y w) = selected w"
  "session (flow_SetPos t x y w) = session w"
  "log (flow_SetPos t x y w) = log w"
  by (simp_all add: flow_SetPos_def)

lemma get_tool_flow_SetPos_other: "u \<noteq> t \<Longrightarrow> get_tool (flow_SetPos t x y w) u = get_tool w u"
  by (simp add: flow_SetPos_def get_tool_update_tool)

lemma pos_flow_SetPos: "t < length (tools w) \<Longrightarrow> pos (get_tool (flow_SetPos t x y w) t) = (x, y)"
  by (simp add: flow_SetPos_def get_tool_update_tool)

section \<open>The options of the plugins\<close>

text \<open>An instance sees the caller's value of an option, or the default of the first class that has one.\<close>

lemma merge_defaults_lookup:
  "merge_defaults ds opts k = (case opts k of Some v \<Rightarrow> Some v | None \<Rightarrow> map_of ds k)"
proof (induction ds arbitrary: opts)
  case Nil
  show ?case by (simp split: option.splits)
next
  case (Cons d ds)
  obtain key v where d: "d = (key, v)"
    by (cases d)
  show ?case
    by (simp add: d Cons.IH split: option.splits)
qed

lemma shared_options_lookup:
  "shared_options pcs opts k =
     (case opts k of Some v \<Rightarrow> Some v
      | None \<Rightarrow> map_of (concat (map default_options pcs)) k)"
  unfolding shared_options_def
proof (induction pcs arbitrary: opts)
  case Nil
  show ?case by (simp split: option.splits)
next
  case (Cons c pcs)
  let ?f = "\<lambda>acc c. merge_defaults (default_options c) acc"
  have "foldl ?f opts (c # pcs) k = foldl ?f (merge_defaults (default_options c) opts) pcs k"
    by simp
  also have "\<dots> = (case merge_defaults (default_options c) opts k of Some v \<Rightarrow> Some v
      | None \<Rightarrow> map_of (concat (map default_options pcs)) k)"
    by (rule Cons.IH)
  also have "\<dots> = (case opts k of Some v \<Rightarrow> Some v
      | None \<Rightarrow> map_of (concat (map default_options (c # pcs))) k)"
    unfolding merge_defaults_lookup [of "default_options c" opts k]
    by (simp add: map_add_def split: option.splits)
  finally show ?case .
qed

text \<open>
  Constructing the plugins a second time on the dictionary that the first construction
  left gives the same options.
\<close>

lemma shared_options_idem:
  "shared_options pcs (shared_options pcs opts) = shared_options pcs opts"
  by (rule ext) (simp add: shared_options_lookup split: option.splits)

section \<open>The layout arranger\<close>

lemma place_tools_length [simp]:
  "length (tools (place_tools ox oy cs mr i tls w)) = length (tools w)"
  by (induction tls arbitrary: i w) (simp_all add: Let_def)

lemma place_tools_other:
  "t \<notin> set tls \<Longrightarrow> get_tool (place_tools ox oy cs mr i tls w) t = get_tool w t"
  by (induction tls arbitrary: i w) (auto simp: Let_def get_tool_flow_SetPos_other)

lemma place_tools_pos:
  "distinct tls \<Longrightarrow> j < length tls \<Longrightarrow> \<forall>t \<in> set tls. t < length (tools w) \<Longrightarrow>
   pos (get_tool (place_tools ox oy cs mr i tls w) (tls ! j)) =
     (ox + real ((i + j) div mr) * cs, oy + real ((i + j) mod mr))"
proof (induction tls arbitrary: i j w)
  case Nil
  then show ?case by simp
next
  case (Cons t ts)
  show ?case
  proof (cases j)
    case 0
    with Cons.prems show ?thesis
      by (simp add: Let_def place_tools_other pos_flow_SetPos)
  next
    case (Suc k)
    with Cons.prems Cons.IH [of k "flow_SetPos t (ox + real (i div mr) * cs) (oy + real (i mod mr)) w" "Suc i"]
    show ?thesis by (simp add: Let_def)
  qed
qed

text \<open>
  C7. For new nodes that are distinct tools of the store, the arranger succeeds and puts the
  i-th of them (from 0) at column \<open>i div 20\<close> and row \<open>i mod 20\<close>, that is at
  (origin x + column * column spacing, origin y + row * 1), whatever \<open>max_rows\<close> is passed;
  the origin position is read from the given origin node or, when none is given, from the
  first new node. With 25 nodes, the node of index 20 is at column 1 and row 0: one column
  spacing to the right of the origin, at the origin's height.
\<close>

theorem layout_grid:
  assumes "distinct tls" and "i < length tls" and "\<forall>t \<in> set tls. t < length (tools w)"
  shows "fst (arrange_tools_table w tls col_spacing max_rows origin_tool) = Inr ()
    \<and> pos (get_tool (snd (arrange_tools_table w tls col_spacing max_rows origin_tool)) (tls ! i)) =
        (fst (pos (get_tool w (case origin_tool of Some t \<Rightarrow> t | None \<Rightarrow> tls ! 0)))
           + real (i div 20) * col_spacing,
         snd (pos (get_tool w (case origin_tool of Some t \<Rightarrow> t | None \<Rightarrow> tls ! 0)))
           + real (i mod 20) * 1)
    \<and> (length tls = 25 \<and> i = 20 \<longrightarrow>
        pos (get_tool (snd (arrange_tools_table w tls col_spacing max_rows origin_tool)) (tls ! 20)) =
        (fst (pos (get_tool w (case origin_tool of Some t \<Rightarrow> t | None \<Rightarrow> tls ! 0)))
           + col_spacing,
         snd (pos (get_tool w (case origin_tool of Some t \<Rightarrow> t | None \<Rightarrow> tls ! 0)))))"
proof -
  obtain t ts where tls: "tls = t # ts"
    using assms(2) by (cases tls) auto
  define origin where "origin = (case origin_tool of Some t \<Rightarrow> t | None \<Rightarrow> tls ! 0)"
  obtain ox oy where o: "pos (get_tool w origin) = (ox, oy)"
    by (cases "pos (get_tool w origin)")
  have run: "arrange_tools_table w tls col_spacing max_rows origin_tool =
        (Inr (), place_tools ox oy col_spacing 20 0 tls w)"
    using o by (cases origin_tool) (simp_all add: arrange_tools_table_def tls origin_def)
  have p: "pos (get_tool (place_tools ox oy col_spacing 20 0 tls w) (tls ! i)) =
        (ox + real (i div 20) * col_spacing, oy + real (i mod 20))"
    using place_tools_pos [OF assms(1) assms(2) assms(3), of ox oy col_spacing 20 0] by simp
  show ?thesis
    unfolding run origin_def [symmetric] o using p by auto
qed

theorem layout_grid_witness:
  "distinct [1..<26] \<and> (20::nat) < length [1..<26]
   \<and> list_all (\<lambda>t. t < length (tools grid_world)) [1..<26]
   \<and> fst (arrange_tools_table grid_world [1..<26] 2 20 (Some 0)) = Inr ()
   \<and> pos (get_tool (snd (arrange_tools_table grid_world [1..<26] 2 20 (Some 0))) 21) = (5, 4)"
  using layout_grid [of "[1..<26]" 20 grid_world 2 20 "Some 0"]
  by (simp add: grid_world_def get_tool_def list_all_iff)

section \<open>Every call of the script frames the world\<close>

named_theorems frame_intros

lemma frame_refl [frame_intros]: "frame w w"
  by (simp add: frame_def)

lemma frame_trans: "frame a b \<Longrightarrow> frame b c \<Longrightarrow> frame a c"
  unfolding frame_def using prefix_order.trans by auto

lemma frame_length: "frame w w' \<Longrightarrow> length (tools w) \<le> length (tools w')"
  unfolding frame_def using prefix_length_le by fastforce

lemma frame_static:
  assumes "frame w w'" and "t < length (tools w)"
  shows "static (get_tool w' t) = static (get_tool w t)"
proof -
  from assms(1) obtain zs where e: "map static (tools w') = map static (tools w) @ zs"
    by (auto simp: frame_def prefix_def)
  have "t < length (tools w')"
    using frame_length [OF assms(1)] assms(2) by simp
  then have "static (tools w' ! t) = map static (tools w') ! t"
    by simp
  also have "\<dots> = map static (tools w) ! t"
    using assms(2) by (simp add: e nth_append)
  finally show ?thesis
    using assms(2) by (simp add: get_tool_def)
qed

lemma frame_logger [frame_intros]: "frame w v \<Longrightarrow> frame w (logger lvl msg args v)"
  by (simp add: frame_def)

lemma static_update_tool:
  "(\<And>x. static (f x) = static x) \<Longrightarrow>
   map static (tools (update_tool t f w)) = map static (tools w)"
  by (cases "t < length (tools w)")
     (simp_all add: update_tool_def map_update list_update_same_conv list_update_beyond)

lemma frame_update_tool:
  "(\<And>x. static (f x) = static x) \<Longrightarrow> frame w v \<Longrightarrow> frame w (update_tool t f v)"
  by (simp add: frame_def static_update_tool)

lemma frame_set_fmt [frame_intros]: "frame w v \<Longrightarrow> frame w (set_fmt t k x v)"
  unfolding set_fmt_def by (rule frame_update_tool) (simp_all add: static_def)

lemma frame_set_global_in [frame_intros]: "frame w v \<Longrightarrow> frame w (set_global_in t x v)"
  unfolding set_global_in_def by (rule frame_update_tool) (simp_all add: static_def)

lemma frame_set_global_out [frame_intros]: "frame w v \<Longrightarrow> frame w (set_global_out t x v)"
  unfolding set_global_out_def by (rule frame_update_tool) (simp_all add: static_def)

lemma frame_set_gamma_space [frame_intros]: "frame w v \<Longrightarrow> frame w (set_gamma_space t x v)"
  unfolding set_gamma_space_def by (rule frame_update_tool) (simp_all add: static_def)

lemma frame_connect_input [frame_intros]: "frame w v \<Longrightarrow> frame w (connect_input t x v)"
  unfolding connect_input_def by (rule frame_update_tool) (simp_all add: static_def)

lemma frame_flow_SetPos [frame_intros]: "frame w v \<Longrightarrow> frame w (flow_SetPos t x y v)"
  unfolding flow_SetPos_def by (rule frame_update_tool) (simp_all add: static_def)

lemma frame_set_tool_name [frame_intros]: "frame w v \<Longrightarrow> frame w (set_tool_name t x v)"
  unfolding set_tool_name_def by (rule frame_update_tool) (simp_all add: static_def)

lemma frame_comp_Loader:
  "comp_Loader clip v = (n, v') \<Longrightarrow> frame w v \<Longrightarrow> frame w v'"
  by (auto simp: frame_def comp_Loader_def intro: prefix_order.trans)

lemma frame_comp_AddTool:
  "comp_AddTool reg v = (n, v') \<Longrightarrow> frame w v \<Longrightarrow> frame w v'"
  by (auto simp: frame_def comp_AddTool_def intro: prefix_order.trans)

lemma frame_assign_channels [frame_intros]: "frame w v \<Longrightarrow> frame w (assign_channels t chans v)"
  by (induction t chans v rule: assign_channels.induct)
     (auto intro: frame_intros split: option.splits)

lemma frame_alpha_fallback:
  "alpha_fallback self t chans v = (r, v') \<Longrightarrow> frame w v \<Longrightarrow> frame w v'"
  by (auto simp: alpha_fallback_def list_keys_def split: option.splits if_splits)

lemma frame_DefaultPlugin:
  "DefaultPlugin_process_layer self layer_name chans v = (r, v') \<Longrightarrow> frame w v \<Longrightarrow> frame w v'"
  unfolding DefaultPlugin_process_layer_def Let_def
  by (auto split: prod.splits sum.splits intro!: frame_intros
      elim!: frame_alpha_fallback frame_comp_Loader)

lemma frame_CryptomattePlugin:
  "CryptomattePlugin_process_layer self layer_name chans v = (r, self', v') \<Longrightarrow> frame w v
   \<Longrightarrow> frame w v'"
  unfolding CryptomattePlugin_process_layer_def Let_def
  by (auto split: if_splits prod.splits intro!: frame_intros elim!: frame_comp_AddTool)

lemma frame_vray_channel:
  "vray_channel self layer_name mapping_name mapping entry v = (r, v') \<Longrightarrow> frame w v
   \<Longrightarrow> frame w v'"
  unfolding vray_channel_def Let_def
  by (auto split: if_splits option.splits prod.splits intro!: frame_intros)

lemma frame_vray_channels:
  "vray_channels self layer_name mapping_name mapping chans v = (r, v') \<Longrightarrow> frame w v
   \<Longrightarrow> frame w v'"
proof (induction chans arbitrary: v)
  case Nil
  then show ?case by simp
next
  case (Cons entry rest)
  obtain r1 v1 where b: "vray_channel self layer_name mapping_name mapping entry v = (r1, v1)"
    by (cases "vray_channel self layer_name mapping_name mapping entry v")
  have f1: "frame w v1"
    using frame_vray_channel [OF b Cons.prems(2)] .
  show ?case
  proof (cases r1)
    case (Inl e)
    with Cons.prems(1) b f1 show ?thesis by simp
  next
    case (Inr u)
    with Cons.prems(1) b have "vray_channels self layer_name mapping_name mapping rest v1 = (r, v')"
      by simp
    then show ?thesis using f1 by (rule Cons.IH)
  qed
qed

lemma frame_VrayPlugin:
  "VrayPlugin_process_layer self layer_name chans v = (r, v') \<Longrightarrow> frame w v \<Longrightarrow> frame w v'"
  unfolding VrayPlugin_process_layer_def Let_def
  by (auto split: if_splits option.splits prod.splits sum.splits intro!: frame_intros
      elim!: frame_vray_channels)

lemma frame_process_layer:
  "process_layer self layer_name chans v = (r, self', v') \<Longrightarrow> frame w v \<Longrightarrow> frame w v'"
  unfolding process_layer_def
  by (auto split: plugin_class.splits prod.splits
      elim: frame_DefaultPlugin frame_CryptomattePlugin frame_VrayPlugin)

lemma frame_run_plugins:
  "run_plugins layer_name chans ps nt v = (r, ps', v') \<Longrightarrow> frame w v \<Longrightarrow> frame w v'"
proof (induction ps arbitrary: v r ps' v')
  case Nil
  then show ?case by simp
next
  case (Cons p rest)
  let ?v1 = "logger DEBUG ''Attempting to use plugin %s on layer %s''
                 [Str (class_name (plugin_class p)), Str layer_name] v"
  obtain r1 p1 v2 where b: "process_layer p layer_name chans ?v1 = (r1, p1, v2)"
    by (cases "process_layer p layer_name chans ?v1")
  have f2: "frame w v2"
    using frame_process_layer [OF b frame_logger [OF Cons.prems(2)]] .
  show ?case
  proof (cases r1)
    case (Inl e)
    with Cons.prems(1) b f2 show ?thesis by (simp add: Let_def)
  next
    case (Inr result)
    show ?thesis
    proof (cases "truthy result")
      case True
      with Cons.prems(1) b Inr f2 show ?thesis
        by (auto simp: Let_def split: option.splits intro!: frame_intros)
    next
      case False
      with Cons.prems(1) b Inr f2 show ?thesis
        by (auto simp: Let_def split: prod.splits intro!: frame_intros elim!: Cons.IH)
    qed
  qed
qed

lemma frame_run_layers:
  "run_layers ls ps nt v = (r, ps', v') \<Longrightarrow> frame w v \<Longrightarrow> frame w v'"
proof (induction ls arbitrary: ps nt v)
  case Nil
  then show ?case by simp
next
  case (Cons l rest)
  obtain layer_name chans where l: "l = (layer_name, chans)"
    by (cases l)
  let ?v1 = "logger INFO ''Layer: %s'' [Str layer_name] v"
  obtain r1 ps1 v2 where b: "run_plugins layer_name chans ps nt ?v1 = (r1, ps1, v2)"
    by (cases "run_plugins layer_name chans ps nt ?v1")
  have f2: "frame w v2"
    using frame_run_plugins [OF b frame_logger [OF Cons.prems(2)]] .
  show ?case
  proof (cases r1)
    case (Inl e)
    with Cons.prems(1) b f2 l show ?thesis by (simp add: Let_def)
  next
    case (Inr nt1)
    with Cons.prems(1) b l have "run_layers rest ps1 nt1 v2 = (r, ps', v')"
      by (simp add: Let_def)
    then show ?thesis using f2 by (rule Cons.IH)
  qed
qed

lemma frame_split_multilayer_exr:
  "split_multilayer_exr v ld pcs opts = (r, v') \<Longrightarrow> frame w v \<Longrightarrow> frame w v'"
  unfolding split_multilayer_exr_def Let_def
  by (auto split: prod.splits sum.splits intro!: frame_intros elim!: frame_run_layers)

lemma frame_part_loaders:
  "part_loaders tool filename names nt v = (nt', v') \<Longrightarrow> frame w v \<Longrightarrow> frame w v'"
proof (induction names arbitrary: nt v)
  case Nil
  then show ?case by simp
next
  case (Cons name rest)
  obtain n v1 where b: "comp_Loader filename v = (n, v1)"
    by (cases "comp_Loader filename v")
  have f1: "frame w v1"
    using frame_comp_Loader [OF b Cons.prems(2)] .
  show ?case
    using Cons.prems(1) b
    by (auto simp: Let_def intro!: frame_intros f1 elim!: Cons.IH)
qed

lemma frame_split_multipart_exr:
  "split_multipart_exr v tool pcs opts = (r, v') \<Longrightarrow> frame w v \<Longrightarrow> frame w v'"
  unfolding split_multipart_exr_def Let_def
  by (auto split: if_splits option.splits prod.splits elim!: frame_part_loaders)

lemma frame_place_tools [frame_intros]:
  "frame w v \<Longrightarrow> frame w (place_tools ox oy cs mr i tls v)"
  by (induction tls arbitrary: i v) (auto simp: Let_def intro!: frame_intros)

lemma frame_arrange_tools_table:
  "arrange_tools_table v tls cs mr origin = (r, v') \<Longrightarrow> frame w v \<Longrightarrow> frame w v'"
  unfolding arrange_tools_table_def Let_def
  by (auto split: option.splits list.splits prod.splits sum.splits intro!: frame_intros)

lemma frame_split_exr:
  "split_exr v tool pcs opts = (r, v') \<Longrightarrow> frame w v \<Longrightarrow> frame w v'"
  unfolding split_exr_def Let_def
  by (auto split: if_splits option.splits prod.splits sum.splits
      elim: frame_arrange_tools_table frame_split_multipart_exr frame_split_multilayer_exr)

lemma frame_split_selected:
  "split_selected tls pcs opts v = (r, v') \<Longrightarrow> frame w v \<Longrightarrow> frame w v'"
proof (induction tls arbitrary: v)
  case Nil
  then show ?case by simp
next
  case (Cons tool rest)
  let ?v1 = "logger DEBUG ''Tool: {}'' [Str (get_tool_name v tool)] v"
  obtain r1 v2 where b: "split_exr ?v1 tool pcs opts = (r1, v2)"
    by (cases "split_exr ?v1 tool pcs opts")
  have f2: "frame w v2"
    using frame_split_exr [OF b frame_logger [OF Cons.prems(2)]] .
  show ?case
  proof (cases r1)
    case (Inl e)
    with Cons.prems(1) b f2 show ?thesis by (simp add: Let_def)
  next
    case (Inr u)
    with Cons.prems(1) b have "split_selected rest pcs opts v2 = (r, v')"
      by (simp add: Let_def)
    then show ?thesis using f2 by (rule Cons.IH)
  qed
qed

section \<open>The orchestration script\<close>

lemma frame_session: "frame w w' \<Longrightarrow> session w' = session w"
  by (simp add: frame_def)

lemma session_split_selected:
  "session (snd (split_selected tls pcs opts v)) = session v"
proof -
  obtain r v' where b: "split_selected tls pcs opts v = (r, v')"
    by (cases "split_selected tls pcs opts v")
  show ?thesis
    using frame_session [OF frame_split_selected [OF b frame_refl]] b by simp
qed

text \<open>
  C8. For every world, whether the batch over the selected loaders returns or raises, the
  lock and undo calls the host receives during the script are exactly \<open>StartUndo\<close>,
  \<open>Lock\<close>, \<open>Unlock\<close>, \<open>EndUndo(True)\<close>, in this order: the batch itself makes no such call,
  and after it the graph is unlocked once and the undo transaction is closed once, as kept.
\<close>

theorem lock_and_undo_released:
  "session (snd (split_exr_script w)) =
     session w @ [StartUndo ''Split EXR'', Lock, Unlock, EndUndo True]"
  by (simp add: split_exr_script_def Let_def split_beta session_split_selected
      comp_Unlock_def comp_EndUndo_def comp_Lock_def comp_StartUndo_def)

text \<open>The defining equations needed to run the script on a concrete world.\<close>

lemmas run_defs =
  split_exr_script_def split_exr_def split_multilayer_exr_def split_multipart_exr_def
  arrange_tools_table_def is_multipart_exr_def is_exr_loader_def get_selected_tools_def
  get_tool_name_def make_plugins_def shared_options_def default_options_def
  group_layers_def add_channel_def layer_append_def namespace_separator_def lower_def
  lower_char_def process_layer_def CryptomattePlugin_process_layer_def
  DefaultPlugin_process_layer_def VrayPlugin_process_layer_def vray_channel_def
  find_mapping_name_def layer_name_mappings_def pos_remappings_def upper_def upper_char_def
  comp_AddTool_def comp_Loader_def comp_StartUndo_def comp_Lock_def comp_Unlock_def
  comp_EndUndo_def connect_input_def set_tool_name_def update_tool_def get_tool_def
  logger_def new_tool_def exr_loader_def basename_def splitext_root_def class_name_def
  set_fmt_def set_global_in_def set_global_out_def set_gamma_space_def flow_SetPos_def
  alpha_fallback_def list_keys_def list_get_def CHANNEL_NO_MATCH_def channel_mappings_def

theorem lock_and_undo_released_witness:
  "fst (split_exr_script jpeg_world) = Inl UnboundLocalError
   \<and> session (snd (split_exr_script jpeg_world)) =
       [StartUndo ''Split EXR'', Lock, Unlock, EndUndo True]"
  using lock_and_undo_released [of jpeg_world]
  by (simp add: jpeg_world_def run_defs Let_def)

lemma split_exr_not_exr:
  "\<not> is_exr_loader w tool \<Longrightarrow> split_exr w tool pcs opts = (Inl UnboundLocalError, w)"
  by (simp add: split_exr_def is_multipart_exr_def)

lemma is_exr_loader_frame:
  "frame w v \<Longrightarrow> t < length (tools w) \<Longrightarrow> is_exr_loader v t = is_exr_loader w t"
  using frame_static [of w v t] by (simp add: is_exr_loader_def static_def)

lemma split_selected_all_exr:
  "split_selected tls pcs opts v = (Inr u, v') \<Longrightarrow> frame w v \<Longrightarrow>
   \<forall>t \<in> set tls. t < length (tools w) \<Longrightarrow> \<forall>t \<in> set tls. is_exr_loader w t"
proof (induction tls arbitrary: v)
  case Nil
  then show ?case by simp
next
  case (Cons tool rest)
  let ?v1 = "logger DEBUG ''Tool: {}'' [Str (get_tool_name v tool)] v"
  obtain r1 v2 where b: "split_exr ?v1 tool pcs opts = (r1, v2)"
    by (cases "split_exr ?v1 tool pcs opts")
  have f1: "frame w ?v1"
    using Cons.prems(2) by (rule frame_logger)
  have f2: "frame w v2"
    using frame_split_exr [OF b f1] .
  from Cons.prems(1) b obtain u1 where r1: "r1 = Inr u1"
    and rest: "split_selected rest pcs opts v2 = (Inr u, v')"
    by (cases r1) (simp_all add: Let_def)
  have "is_exr_loader ?v1 tool"
  proof (rule ccontr)
    assume "\<not> is_exr_loader ?v1 tool"
    from split_exr_not_exr [OF this, of pcs opts] b r1 show False
      by simp
  qed
  then have "is_exr_loader w tool"
    using is_exr_loader_frame [OF f1, of tool] Cons.prems(3) by simp
  moreover have "\<forall>t \<in> set rest. is_exr_loader w t"
    using Cons.IH [OF rest f2] Cons.prems(3) by simp
  ultimately show ?case by simp
qed

text \<open>
  C10. For a tool that is no EXR loader, \<open>split_exr\<close> reads \<open>new_tools\<close> unbound and raises
  \<open>UnboundLocalError\<close> (a \<open>NameError\<close>), leaving the world as it was; nothing catches it.
  So, the selected handles being tools of the store, the script returns without error only
  if every selected loader is an EXR loader.
\<close>

theorem non_exr_loader_raises:
  "(\<not> is_exr_loader w tool \<longrightarrow> split_exr w tool pcs opts = (Inl UnboundLocalError, w))
   \<and> ((\<forall>t \<in> set (selected w). t < length (tools w))
        \<and> fst (split_exr_script w) = Inr () \<longrightarrow>
        (\<forall>t \<in> set (get_selected_tools w (Some ''Loader'')). is_exr_loader w t))"
proof (intro conjI impI)
  assume "\<not> is_exr_loader w tool"
  then show "split_exr w tool pcs opts = (Inl UnboundLocalError, w)"
    by (rule split_exr_not_exr)
next
  assume a: "(\<forall>t \<in> set (selected w). t < length (tools w)) \<and> fst (split_exr_script w) = Inr ()"
  let ?w3 = "comp_Lock (comp_StartUndo ''Split EXR''
     (logger DEBUG ''Attempting to split EXR from selected tools.'' [] w))"
  let ?sel = "get_selected_tools ?w3 (Some ''Loader'')"
  have t3: "tools ?w3 = tools w" and s3: "selected ?w3 = selected w"
    by (simp_all add: comp_Lock_def comp_StartUndo_def)
  have sel: "?sel = get_selected_tools w (Some ''Loader'')"
    by (simp add: get_selected_tools_def get_tool_def t3 s3)
  have e3: "is_exr_loader ?w3 t = is_exr_loader w t" for t
    by (simp add: is_exr_loader_def get_tool_def t3)
  obtain r v4 where b: "split_selected ?sel [CryptomattePlugin, DefaultPlugin] Map.empty ?w3 = (r, v4)"
    by (cases "split_selected ?sel [CryptomattePlugin, DefaultPlugin] Map.empty ?w3")
  have "fst (split_exr_script w) = r"
    using b by (simp add: split_exr_script_def Let_def)
  with a have r: "r = Inr ()" by simp
  have valid: "\<forall>t \<in> set ?sel. t < length (tools ?w3)"
    using a unfolding sel t3 by (auto simp: get_selected_tools_def)
  show "\<forall>t \<in> set (get_selected_tools w (Some ''Loader'')). is_exr_loader w t"
    using split_selected_all_exr [OF b [unfolded r] frame_refl valid] by (simp add: sel e3)
qed


theorem non_exr_loader_raises_witness:
  "\<not> is_exr_loader jpeg_world 0
   \<and> split_exr jpeg_world 0 [CryptomattePlugin, DefaultPlugin] Map.empty =
       (Inl UnboundLocalError, jpeg_world)
   \<and> list_all (\<lambda>t. t < length (tools crypto_world)) (selected crypto_world)
   \<and> fst (split_exr_script crypto_world) = Inr ()
   \<and> list_all (is_exr_loader crypto_world) (get_selected_tools crypto_world (Some ''Loader''))"
proof -
  have a: "\<not> is_exr_loader jpeg_world 0"
    by (simp add: jpeg_world_def run_defs)
  have b: "\<forall>t \<in> set (selected crypto_world). t < length (tools crypto_world)"
    by (simp add: crypto_world_def)
  have c: "fst (split_exr_script crypto_world) = Inr ()"
    by (simp add: crypto_world_def run_defs Let_def)
  show ?thesis
    using a b c
      non_exr_loader_raises [of jpeg_world 0 "[CryptomattePlugin, DefaultPlugin]" Map.empty]
      non_exr_loader_raises [of crypto_world]
    unfolding list_all_iff by blast
qed

section \<open>Multi-part against multi-layer\<close>

lemma frame_log: "frame w w' \<Longrightarrow> prefix (log w) (log w')"
  by (simp add: frame_def)

lemma part_loaders_log:
  "log (snd (part_loaders tool filename names nt w)) = log w"
  by (induction names arbitrary: nt w)
     (simp_all add: Let_def split_beta comp_Loader_def set_tool_name_def set_gamma_space_def
        set_fmt_def set_global_in_def set_global_out_def)

lemma place_tools_log [simp]: "log (place_tools ox oy cs mr i tls w) = log w"
  by (induction tls arbitrary: i w) (simp_all add: Let_def)

lemma arrange_tools_table_log: "log (snd (arrange_tools_table w tls cs mr origin)) = log w"
  by (simp add: arrange_tools_table_def Let_def split_beta split: option.splits list.splits)

text \<open>
  C6. A tool is split in exactly one way. An EXR loader whose \<open>Part\<close> input exists goes to
  the multi-part splitter, whose new loaders are then arranged, and the log stays as it was:
  the layer path, which always logs the number of layers first, is not entered. An EXR
  loader without that input goes to the multi-layer splitter, and the log continues with
  that record.
\<close>

theorem multipart_excludes_multilayer:
  "(is_multipart_exr w tool \<longrightarrow>
      (\<exists>new_tools w1.
          split_multipart_exr w tool plugin_classes opts = (Inr (Some new_tools), w1)
          \<and> split_exr w tool plugin_classes opts =
              (if new_tools = [] then (Inr (), w1)
               else arrange_tools_table w1 new_tools 1 20 (Some tool)))
      \<and> log (snd (split_exr w tool plugin_classes opts)) = log w)
   \<and> (\<not> is_multipart_exr w tool \<and> is_exr_loader w tool \<longrightarrow>
      (\<exists>r w1.
          split_multilayer_exr w tool plugin_classes opts = (r, w1)
          \<and> split_exr w tool plugin_classes opts =
              (case r of
                 Inl e \<Rightarrow> (Inl e, w1)
               | Inr new_tools \<Rightarrow>
                   if new_tools = [] then (Inr (), w1)
                   else arrange_tools_table w1 new_tools 1 20 (Some tool)))
      \<and> prefix (log w @ [(DEBUG, ''%s layers found.'',
                   [Num (length (group_layers (channel_ids (get_tool w tool))))])])
            (log (snd (split_exr w tool plugin_classes opts))))"
proof (intro conjI impI)
  assume m: "is_multipart_exr w tool"
  then obtain parts where e: "is_exr_loader w tool" and p: "part_ids (get_tool w tool) = Some parts"
    by (auto simp: is_multipart_exr_def split: if_splits)
  obtain nt w1 where pl: "part_loaders tool (clip_name (get_tool w tool)) parts [] w = (nt, w1)"
    by (cases "part_loaders tool (clip_name (get_tool w tool)) parts [] w")
  have sm: "split_multipart_exr w tool plugin_classes opts = (Inr (Some nt), w1)"
    by (simp add: split_multipart_exr_def e p pl)
  have se: "split_exr w tool plugin_classes opts =
      (if nt = [] then (Inr (), w1) else arrange_tools_table w1 nt 1 20 (Some tool))"
    by (simp add: split_exr_def m sm)
  show "\<exists>new_tools w1.
          split_multipart_exr w tool plugin_classes opts = (Inr (Some new_tools), w1)
          \<and> split_exr w tool plugin_classes opts =
              (if new_tools = [] then (Inr (), w1)
               else arrange_tools_table w1 new_tools 1 20 (Some tool))"
    using sm se by blast
  have "log w1 = log w"
    using part_loaders_log [of tool "clip_name (get_tool w tool)" parts "[]" w] pl by simp
  then show "log (snd (split_exr w tool plugin_classes opts)) = log w"
    by (simp add: se arrange_tools_table_log)
next
  assume a: "\<not> is_multipart_exr w tool \<and> is_exr_loader w tool"
  obtain r w1 where sm: "split_multilayer_exr w tool plugin_classes opts = (r, w1)"
    by (cases "split_multilayer_exr w tool plugin_classes opts")
  have se: "split_exr w tool plugin_classes opts =
      (case r of
         Inl e \<Rightarrow> (Inl e, w1)
       | Inr new_tools \<Rightarrow>
           if new_tools = [] then (Inr (), w1)
           else arrange_tools_table w1 new_tools 1 20 (Some tool))"
    using a by (simp add: split_exr_def sm split: sum.splits)
  show "\<exists>r w1.
          split_multilayer_exr w tool plugin_classes opts = (r, w1)
          \<and> split_exr w tool plugin_classes opts =
              (case r of
                 Inl e \<Rightarrow> (Inl e, w1)
               | Inr new_tools \<Rightarrow>
                   if new_tools = [] then (Inr (), w1)
                   else arrange_tools_table w1 new_tools 1 20 (Some tool))"
    using sm se by blast
  let ?ls = "group_layers (channel_ids (get_tool w tool))"
  let ?w0 = "logger DEBUG ''%s layers found.'' [Num (length ?ls)] w"
  obtain r2 ps2 w2 where rl: "run_layers ?ls
      (make_plugins plugin_classes (clip_name (get_tool w tool)) tool ?ls opts) [] ?w0 = (r2, ps2, w2)"
    by (cases "run_layers ?ls
      (make_plugins plugin_classes (clip_name (get_tool w tool)) tool ?ls opts) [] ?w0") 
  have p2: "prefix (log ?w0) (log w2)"
    using frame_log [OF frame_run_layers [OF rl frame_refl]] .
  have w1: "w1 = (case r2 of Inl e \<Rightarrow> w2
                 | Inr nt \<Rightarrow> logger DEBUG ''Finished processing all layers.'' [] w2)"
    using sm by (cases r2) (auto simp add: split_multilayer_exr_def Let_def rl)
  have "prefix (log w2) (log w1)"
    unfolding w1 by (cases r2) simp_all
  with p2 have p1: "prefix (log ?w0) (log w1)"
    by (rule prefix_order.trans)
  have "log (snd (split_exr w tool plugin_classes opts)) = log w1"
    unfolding se by (cases r) (simp_all add: arrange_tools_table_log)
  with p1 show "prefix (log w @ [(DEBUG, ''%s layers found.'', [Num (length ?ls)])])
            (log (snd (split_exr w tool plugin_classes opts)))"
    by simp
qed

theorem multipart_excludes_multilayer_witness:
  "is_multipart_exr multipart_world 0
   \<and> split_exr multipart_world 0 [CryptomattePlugin, DefaultPlugin] Map.empty
       = arrange_tools_table
           (snd (split_multipart_exr multipart_world 0 [CryptomattePlugin, DefaultPlugin] Map.empty))
           [1, 2] 1 20 (Some 0)
   \<and> log (snd (split_exr multipart_world 0 [CryptomattePlugin, DefaultPlugin] Map.empty)) = []
   \<and> \<not> is_multipart_exr crypto_world 0 \<and> is_exr_loader crypto_world 0
   \<and> take 1 (log (snd (split_exr crypto_world 0 [CryptomattePlugin, DefaultPlugin] Map.empty)))
       = [(DEBUG, ''%s layers found.'', [Num 2])]"
proof -
  have a: "is_multipart_exr multipart_world 0"
    by (simp add: multipart_world_def run_defs)
  have b: "\<not> is_multipart_exr crypto_world 0 \<and> is_exr_loader crypto_world 0"
    by (simp add: crypto_world_def run_defs)
  have c: "fst (split_multipart_exr multipart_world 0 [CryptomattePlugin, DefaultPlugin] Map.empty)
      = Inr (Some [1, 2])"
    by (simp add: multipart_world_def run_defs Let_def)
  have d: "log multipart_world = []" "log crypto_world = []"
    by (simp_all add: multipart_world_def crypto_world_def)
  have e: "length (group_layers (channel_ids (get_tool crypto_world 0))) = 2"
    by (simp add: crypto_world_def run_defs Let_def)
  from multipart_excludes_multilayer [of multipart_world 0 "[CryptomattePlugin, DefaultPlugin]" Map.empty]
    a c d
  have m: "split_exr multipart_world 0 [CryptomattePlugin, DefaultPlugin] Map.empty
       = arrange_tools_table
           (snd (split_multipart_exr multipart_world 0 [CryptomattePlugin, DefaultPlugin] Map.empty))
           [1, 2] 1 20 (Some 0)
   \<and> log (snd (split_exr multipart_world 0 [CryptomattePlugin, DefaultPlugin] Map.empty)) = []"
    by auto
  from multipart_excludes_multilayer [of crypto_world 0 "[CryptomattePlugin, DefaultPlugin]" Map.empty]
    b d e
  have "prefix [(DEBUG, ''%s layers found.'', [Num 2])]
     (log (snd (split_exr crypto_world 0 [CryptomattePlugin, DefaultPlugin] Map.empty)))"
    by simp
  then have l: "take 1 (log (snd (split_exr crypto_world 0 [CryptomattePlugin, DefaultPlugin] Map.empty)))
       = [(DEBUG, ''%s layers found.'', [Num 2])]"
    by (auto simp: prefix_def)
  from a b m l show ?thesis by blast
qed

section \<open>The default plugin\<close>

lemma known_channel_iff: "known_channel entry \<longleftrightarrow> map_of channel_mappings (fst entry) \<noteq> None"
  by (simp add: known_channel_def map_of_eq_None_iff)

lemma set_fmt_simps [simp]:
  "length (tools (set_fmt t key v w)) = length (tools w)"
  "selected (set_fmt t key v w) = selected w"
  "session (set_fmt t key v w) = session w"
  "log (set_fmt t key v w) = log w"
  by (simp_all add: set_fmt_def)

lemma get_tool_set_fmt:
  "get_tool (set_fmt t key v w) u =
     (if u = t \<and> t < length (tools w) then (get_tool w t)\<lparr>fmt := fmt (get_tool w t) @ [(key, v)]\<rparr>
      else get_tool w u)"
  by (simp add: set_fmt_def get_tool_update_tool)

lemma assign_channels_log:
  "log (assign_channels t chans w) =
     log w @ map (\<lambda>entry. (ERROR, ''Unknown channel: {}'', [Str (fst entry)]))
               (filter (\<lambda>entry. \<not> known_channel entry) chans)"
  by (induction t chans w rule: assign_channels.induct)
     (auto simp: known_channel_iff split: option.splits)

lemma assign_channels_length [simp]:
  "length (tools (assign_channels t chans w)) = length (tools w)"
  by (induction t chans w rule: assign_channels.induct)
     (auto split: option.splits)

lemma assign_channels_fmt:
  "t < length (tools w) \<Longrightarrow>
   get_tool (assign_channels t chans w) t =
     (get_tool w t)\<lparr>fmt := fmt (get_tool w t)
        @ map (\<lambda>entry. (the (map_of channel_mappings (fst entry)), snd entry))
            (filter known_channel chans)\<rparr>"
proof (induction t chans w rule: assign_channels.induct)
  case (1 t w)
  then show ?case by simp
next
  case (2 t channel raw_channel rest w)
  show ?case
  proof (cases "map_of channel_mappings channel")
    case None
    with 2 show ?thesis by (simp add: known_channel_iff get_tool_def)
  next
    case (Some mapping)
    with 2 show ?thesis by (simp add: known_channel_iff get_tool_set_fmt)
  qed
qed

lemma alpha_fallback_eval:
  "alpha_fallback self t chans w =
     (case options self ''alpha_fallback'' of
        None \<Rightarrow> (Inl KeyError, w)
      | Some enabled \<Rightarrow> if enabled then (Inl AttributeError, w) else (Inr (), w))"
  by (simp add: alpha_fallback_def list_keys_def split: option.splits)

lemma DefaultPlugin_outcome:
  "fst (DefaultPlugin_process_layer self layer_name chans w) =
     (case options self ''alpha_fallback'' of
        None \<Rightarrow> Inl KeyError
      | Some enabled \<Rightarrow> if enabled then Inl AttributeError else Inr (PyTool (length (tools w))))"
  by (simp add: DefaultPlugin_process_layer_def Let_def comp_Loader_def alpha_fallback_eval
      split: option.splits)

lemma DefaultPlugin_log:
  "log (snd (DefaultPlugin_process_layer self layer_name chans w)) =
     log w @ (INFO, ''Creating new loader for layer: %s'', [Str layer_name])
       # map (\<lambda>entry. (ERROR, ''Unknown channel: {}'', [Str (fst entry)]))
           (filter (\<lambda>entry. \<not> known_channel entry) chans)"
  by (simp add: DefaultPlugin_process_layer_def Let_def comp_Loader_def alpha_fallback_eval
      assign_channels_log set_global_in_def set_global_out_def set_tool_name_def
      split: option.splits)

lemma DefaultPlugin_fmt:
  assumes "options self ''alpha_fallback'' = Some False"
  shows "fmt (get_tool (snd (DefaultPlugin_process_layer self layer_name chans w)) (length (tools w))) =
     map (\<lambda>slot. (slot, CHANNEL_NO_MATCH))
        [''RedName'', ''GreenName'', ''BlueName'', ''AlphaName'', ''ZName'']
     @ map (\<lambda>entry. (the (map_of channel_mappings (fst entry)), snd entry))
         (filter known_channel chans)"
  using assms
  by (simp add: DefaultPlugin_process_layer_def Let_def comp_Loader_def alpha_fallback_eval
      set_global_in_def set_global_out_def set_tool_name_def get_tool_update_tool
      assign_channels_fmt get_tool_set_fmt)
     (simp add: get_tool_def new_tool_def)


text \<open>
  C9. In the default plugin, the channels whose key is not in the mapping table give one
  record at error level each, in their order, and nothing else: the outcome of the layer is
  that of the layer without them, and with \<open>alpha_fallback\<close> disabled the layer yields its new
  loader, whose slots were reset to the sentinel and then bound by the known channels in
  their order.
\<close>

theorem unknown_channels_skipped:
  "log (snd (DefaultPlugin_process_layer self layer_name chans w)) =
     log w @ (INFO, ''Creating new loader for layer: %s'', [Str layer_name])
       # map (\<lambda>entry. (ERROR, ''Unknown channel: {}'', [Str (fst entry)]))
           (filter (\<lambda>entry. \<not> known_channel entry) chans)
   \<and> fst (DefaultPlugin_process_layer self layer_name chans w) =
       fst (DefaultPlugin_process_layer self layer_name (filter known_channel chans) w)
   \<and> (options self ''alpha_fallback'' = Some False \<longrightarrow>
        fst (DefaultPlugin_process_layer self layer_name chans w) = Inr (PyTool (length (tools w)))
        \<and> fmt (get_tool (snd (DefaultPlugin_process_layer self layer_name chans w))
               (length (tools w))) =
            map (\<lambda>slot. (slot, CHANNEL_NO_MATCH))
              [''RedName'', ''GreenName'', ''BlueName'', ''AlphaName'', ''ZName'']
            @ map (\<lambda>entry. (the (map_of channel_mappings (fst entry)), snd entry))
                (filter known_channel chans))"
  by (simp add: DefaultPlugin_log DefaultPlugin_outcome DefaultPlugin_fmt)

lemma alpha_plugin_options: "options (alpha_plugin enabled) ''alpha_fallback'' = Some enabled"
  by (simp add: alpha_plugin_def shared_options_def default_options_def)

theorem unknown_channels_skipped_witness:
  "options (alpha_plugin False) ''alpha_fallback'' = Some False
   \<and> fst (DefaultPlugin_process_layer (alpha_plugin False) ''misc''
            [(''r'', ''misc.R''), (''q'', ''misc.Q''), (''b'', ''misc.B'')] alpha_world) =
       Inr (PyTool 1)
   \<and> log (snd (DefaultPlugin_process_layer (alpha_plugin False) ''misc''
            [(''r'', ''misc.R''), (''q'', ''misc.Q''), (''b'', ''misc.B'')] alpha_world)) =
       [(INFO, ''Creating new loader for layer: %s'', [Str ''misc'']),
        (ERROR, ''Unknown channel: {}'', [Str ''q''])]
   \<and> fmt (get_tool (snd (DefaultPlugin_process_layer (alpha_plugin False) ''misc''
            [(''r'', ''misc.R''), (''q'', ''misc.Q''), (''b'', ''misc.B'')] alpha_world)) 1) =
       [(''RedName'', CHANNEL_NO_MATCH), (''GreenName'', CHANNEL_NO_MATCH),
        (''BlueName'', CHANNEL_NO_MATCH), (''AlphaName'', CHANNEL_NO_MATCH),
        (''ZName'', CHANNEL_NO_MATCH), (''RedName'', ''misc.R''), (''BlueName'', ''misc.B'')]"
proof -
  have l: "length (tools alpha_world) = 1" and g: "log alpha_world = []"
    by (simp_all add: alpha_world_def)
  have k: "known_channel (''r'', ''misc.R'')" "\<not> known_channel (''q'', ''misc.Q'')"
      "known_channel (''b'', ''misc.B'')"
    by (simp_all add: known_channel_def channel_mappings_def)
  have m: "map_of channel_mappings ''r'' = Some ''RedName''"
      "map_of channel_mappings ''b'' = Some ''BlueName''"
    by (simp_all add: channel_mappings_def)
  note t = unknown_channels_skipped [of "alpha_plugin False" "''misc''"
        "[(''r'', ''misc.R''), (''q'', ''misc.Q''), (''b'', ''misc.B'')]" alpha_world]
  note o = alpha_plugin_options [of False]
  from t [THEN conjunct1] have c1: "log (snd (DefaultPlugin_process_layer (alpha_plugin False) ''misc''
            [(''r'', ''misc.R''), (''q'', ''misc.Q''), (''b'', ''misc.B'')] alpha_world)) =
       [(INFO, ''Creating new loader for layer: %s'', [Str ''misc'']),
        (ERROR, ''Unknown channel: {}'', [Str ''q''])]"
    by (simp add: g k)
  from t [THEN conjunct2, THEN conjunct2, THEN mp, OF o]
  show ?thesis
    by (simp add: c1 o l k m)
qed

section \<open>The alpha fallback\<close>

text \<open>
  C1, the enabled half. With \<open>alpha_fallback\<close> enabled the default plugin evaluates
  \<open>channels.keys()\<close> on the channel list of the layer, which raises \<open>AttributeError\<close>: for the
  layer \<open>spec\<close> (r, g, b and no a) of a file whose layer \<open>default\<close> has an alpha channel, no
  loader is returned and no alpha slot is bound to the default alpha, and the whole split
  of that file raises.
\<close>

theorem alpha_fallback_enabled_raises:
  "options (alpha_plugin True) ''alpha_fallback'' = Some True
   \<and> map_of (layers (alpha_plugin True)) ''default'' =
       Some [(''r'', ''R''), (''g'', ''G''), (''b'', ''B''), (''a'', ''A'')]
   \<and> fst (DefaultPlugin_process_layer (alpha_plugin True) ''spec''
            [(''r'', ''spec.R''), (''g'', ''spec.G''), (''b'', ''spec.B'')] alpha_world) =
       Inl AttributeError
   \<and> fst (split_multilayer_exr alpha_world 0 [DefaultPlugin]
            (Map.empty(''alpha_fallback'' \<mapsto> True))) = Inl AttributeError"
proof -
  have a: "fst (split_multilayer_exr alpha_world 0 [DefaultPlugin]
            (Map.empty(''alpha_fallback'' \<mapsto> True))) = Inl AttributeError"
    by (simp add: alpha_world_def run_defs Let_def)
  have b: "map_of (layers (alpha_plugin True)) ''default'' =
       Some [(''r'', ''R''), (''g'', ''G''), (''b'', ''B''), (''a'', ''A'')]"
    by (simp add: alpha_plugin_def run_defs Let_def)
  show ?thesis
    by (simp add: a b alpha_plugin_options DefaultPlugin_outcome)
qed

text \<open>With the option enabled this holds of every layer, with or without an alpha channel.\<close>

lemma alpha_fallback_enabled_always_raises:
  "options self ''alpha_fallback'' = Some True \<Longrightarrow>
   fst (DefaultPlugin_process_layer self layer_name chans w) = Inl AttributeError"
  by (simp add: DefaultPlugin_outcome)

text \<open>
  The disabled half: a layer without an \<open>a\<close> channel leaves the alpha slot of its new loader
  at the sentinel.
\<close>

lemma alpha_mapping_only_a: "map_of channel_mappings c = Some ''AlphaName'' \<Longrightarrow> c = ''a''"
  by (simp add: channel_mappings_def split: if_splits)

lemma alpha_fallback_disabled_sentinel:
  assumes "options self ''alpha_fallback'' = Some False" and "''a'' \<notin> fst ` set chans"
  shows "fmt_value (get_tool (snd (DefaultPlugin_process_layer self layer_name chans w))
            (length (tools w))) ''AlphaName'' = Some CHANNEL_NO_MATCH"
proof -
  let ?bound = "map (\<lambda>entry. (the (map_of channel_mappings (fst entry)), snd entry))
                (filter known_channel chans)"
  have "''AlphaName'' \<notin> fst ` set ?bound"
  proof
    assume "''AlphaName'' \<in> fst ` set ?bound"
    then obtain entry where e: "entry \<in> set chans" "known_channel entry"
        and m: "the (map_of channel_mappings (fst entry)) = ''AlphaName''"
      by auto
    from e(2) obtain slot where "map_of channel_mappings (fst entry) = Some slot"
      by (auto simp: known_channel_iff)
    with m have "fst entry = ''a''"
      using alpha_mapping_only_a by simp
    with e(1) assms(2) show False by force
  qed
  then have "map_of (rev ?bound) ''AlphaName'' = None"
    by (simp add: map_of_eq_None_iff)
  then show ?thesis
    using assms(1)
    by (simp add: fmt_value_def DefaultPlugin_fmt map_add_def)
qed

section \<open>The domain-channel plugin\<close>








section \<open>The dispatch loop\<close>

lemma run_plugins_accept:
  assumes "plugin_call layer_name chans p w = Some (result, p', w3)" and "truthy result"
  shows "run_plugins layer_name chans (p # post) new_tools w =
     (Inr (case as_tool result of Some t \<Rightarrow> new_tools @ [t] | None \<Rightarrow> new_tools),
      p' # post, accepted_world p layer_name result w3)"
  using assms
  by (auto simp: plugin_call_def accepted_world_def Let_def split: prod.splits sum.splits option.splits)

lemma run_plugins_reject:
  assumes "plugin_call layer_name chans p w = Some (result, p', w3)" and "\<not> truthy result"
  shows "run_plugins layer_name chans (p # rest) new_tools w =
     (case run_plugins layer_name chans rest new_tools
             (logger DEBUG ''Plugin %s rejected layer %s''
                [Str (class_name (plugin_class p)), Str layer_name] w3) of
        (r, rest', w5) \<Rightarrow> (r, p' # rest', w5))"
  using assms
  by (auto simp: plugin_call_def Let_def split: prod.splits sum.splits)







section \<open>The matte plugin\<close>

lemma crypto_count_static:
  "crypto_count w = length (filter (\<lambda>s. fst s = ''Fuse.Cryptomatte'') (map static (tools w)))"
  by (simp add: crypto_count_def static_def filter_map comp_def)

lemma static_logger [simp]: "map static (tools (logger lvl msg args w)) = map static (tools w)"
  by simp

lemma static_set_fmt [simp]: "map static (tools (set_fmt t k v w)) = map static (tools w)"
  unfolding set_fmt_def by (rule static_update_tool) (simp add: static_def)

lemma static_set_global_in [simp]: "map static (tools (set_global_in t v w)) = map static (tools w)"
  unfolding set_global_in_def by (rule static_update_tool) (simp add: static_def)

lemma static_set_global_out [simp]: "map static (tools (set_global_out t v w)) = map static (tools w)"
  unfolding set_global_out_def by (rule static_update_tool) (simp add: static_def)

lemma static_connect_input [simp]: "map static (tools (connect_input t v w)) = map static (tools w)"
  unfolding connect_input_def by (rule static_update_tool) (simp add: static_def)

lemma static_set_tool_name [simp]: "map static (tools (set_tool_name t v w)) = map static (tools w)"
  unfolding set_tool_name_def by (rule static_update_tool) (simp add: static_def)

lemma static_assign_channels [simp]:
  "map static (tools (assign_channels t chans w)) = map static (tools w)"
  by (induction t chans w rule: assign_channels.induct) (auto split: option.splits)

lemma static_DefaultPlugin:
  "map static (tools (snd (DefaultPlugin_process_layer self layer_name chans w))) =
     map static (tools w) @ [(''Loader'', [], None)]"
  by (simp add: DefaultPlugin_process_layer_def Let_def comp_Loader_def alpha_fallback_eval
      split: option.splits)
     (simp add: static_def new_tool_def)

lemma static_vray_channel:
  "map static (tools (snd (vray_channel self layer_name mapping_name mapping entry w))) =
     map static (tools w)"
  by (simp add: vray_channel_def Let_def split_beta split: option.splits)

lemma static_vray_channels:
  "map static (tools (snd (vray_channels self layer_name mapping_name mapping chans w))) =
     map static (tools w)"
proof (induction chans arbitrary: w)
  case Nil
  show ?case by simp
next
  case (Cons entry rest)
  obtain r w1 where b: "vray_channel self layer_name mapping_name mapping entry w = (r, w1)"
    by (cases "vray_channel self layer_name mapping_name mapping entry w")
  have s: "map static (tools w1) = map static (tools w)"
    using static_vray_channel [of self layer_name mapping_name mapping entry w] b by simp
  show ?case
    using Cons.IH [of w1] by (cases r) (simp_all add: b s)
qed

lemma static_VrayPlugin:
  "map static (tools (snd (VrayPlugin_process_layer self layer_name chans w))) =
     map static (tools w)"
proof -
  have "map static (tools (snd (case vray_channels self layer_name mapping_name mapping chans w1 of
            (Inl e, w2) \<Rightarrow> (Inl e, w2)
          | (Inr u, w2) \<Rightarrow> (Inr (PyBool True), w2)))) = map static (tools w1)"
    for mapping_name mapping w1
    using static_vray_channels [of self layer_name mapping_name mapping chans w1]
    by (auto split: prod.splits sum.splits)
  then show ?thesis
    by (simp add: VrayPlugin_process_layer_def Let_def split: option.splits)
qed

lemma VrayPlugin_result:
  "fst (VrayPlugin_process_layer self layer_name chans w) = Inr res \<Longrightarrow> as_tool res = None"
  by (auto simp: VrayPlugin_process_layer_def Let_def split: option.splits if_splits prod.splits sum.splits)

lemma static_CryptomattePlugin:
  "map static (tools (snd (snd (CryptomattePlugin_process_layer self layer_name chans w)))) =
     map static (tools w)
     @ (if is_crypto_layer layer_name \<and> \<not> made_crypto self then [(''Fuse.Cryptomatte'', [], None)]
        else [])"
  by (simp add: CryptomattePlugin_process_layer_def Let_def comp_AddTool_def is_crypto_layer_def)
     (simp add: static_def new_tool_def)

lemma CryptomattePlugin_result:
  "fst (CryptomattePlugin_process_layer self layer_name chans w) =
     Inr (if \<not> is_crypto_layer layer_name then PyBool False
          else if made_crypto self then PyBool True
          else PyTool (length (tools w)))
   \<and> fst (snd (CryptomattePlugin_process_layer self layer_name chans w)) =
       (if is_crypto_layer layer_name then self\<lparr>made_crypto := True\<rparr> else self)"
  by (simp add: CryptomattePlugin_process_layer_def Let_def comp_AddTool_def is_crypto_layer_def)


lemma process_layer_effect:
  assumes "process_layer p layer_name chans w = (r, p', w')"
  shows "plugin_class p' = plugin_class p"
    and "made_crypto p' =
           (made_crypto p \<or> (plugin_class p = CryptomattePlugin \<and> is_crypto_layer layer_name))"
    and "map static (tools w') = map static (tools w) @ created p layer_name"
    and "r = Inr res \<Longrightarrow> as_tool res = Some t \<Longrightarrow> t = length (tools w) \<and> created p layer_name \<noteq> []"
    and "plugin_class p = CryptomattePlugin \<Longrightarrow>
           r = Inr (if \<not> is_crypto_layer layer_name then PyBool False
                    else if made_crypto p then PyBool True
                    else PyTool (length (tools w)))"
proof -
  show "plugin_class p' = plugin_class p"
    using assms CryptomattePlugin_result [of p layer_name chans w]
    by (cases "plugin_class p") (auto simp: process_layer_def split: prod.splits)
  show "made_crypto p' =
           (made_crypto p \<or> (plugin_class p = CryptomattePlugin \<and> is_crypto_layer layer_name))"
    using assms CryptomattePlugin_result [of p layer_name chans w]
    by (cases "plugin_class p") (auto simp: process_layer_def split: prod.splits)
  show "map static (tools w') = map static (tools w) @ created p layer_name"
    using assms static_CryptomattePlugin [of p layer_name chans w]
      static_DefaultPlugin [of p layer_name chans w] static_VrayPlugin [of p layer_name chans w]
    by (cases "plugin_class p") (auto simp: process_layer_def created_def split: prod.splits)
  show "plugin_class p = CryptomattePlugin \<Longrightarrow>
           r = Inr (if \<not> is_crypto_layer layer_name then PyBool False
                    else if made_crypto p then PyBool True
                    else PyTool (length (tools w)))"
    using assms CryptomattePlugin_result [of p layer_name chans w]
    by (simp add: process_layer_def)
  show "t = length (tools w) \<and> created p layer_name \<noteq> []"
    if "r = Inr res" and "as_tool res = Some t"
    using that assms CryptomattePlugin_result [of p layer_name chans w]
      DefaultPlugin_outcome [of p layer_name chans w] VrayPlugin_result [of p layer_name chans w res]
    by (cases "plugin_class p")
       (auto simp: process_layer_def created_def split: prod.splits option.splits if_splits)
qed


lemma grown_facts:
  assumes "map static (tools w') = map static (tools w) @ new"
  shows "length (tools w') = length (tools w) + length new"
    and "crypto_count w' = crypto_count w + length (filter (\<lambda>s. fst s = ''Fuse.Cryptomatte'') new)"
    and "t < length (tools w) \<Longrightarrow> is_crypto_tool w' t = is_crypto_tool w t"
    and "new = [s] \<Longrightarrow> is_crypto_tool w' (length (tools w)) = (fst s = ''Fuse.Cryptomatte'')"
    and "\<forall>t \<in> set nt. t < length (tools w) \<Longrightarrow> recorded_crypto w' nt = recorded_crypto w nt"
proof -
  show l: "length (tools w') = length (tools w) + length new"
    using arg_cong [OF assms, of length] by simp
  show "crypto_count w' = crypto_count w + length (filter (\<lambda>s. fst s = ''Fuse.Cryptomatte'') new)"
    by (simp add: crypto_count_static assms)
  have n: "static (get_tool w' u) = (map static (tools w) @ new) ! u" if "u < length (tools w')" for u
    using that assms by (metis get_tool_def nth_map)
  show o: "is_crypto_tool w' t = is_crypto_tool w t" if "t < length (tools w)" for t
    using that n [of t] l by (simp add: is_crypto_tool_def nth_append get_tool_def static_def)
  show "is_crypto_tool w' (length (tools w)) = (fst s = ''Fuse.Cryptomatte'')" if "new = [s]"
    using that n [of "length (tools w)"] l
    by (auto simp: is_crypto_tool_def nth_append static_def)
  show "recorded_crypto w' nt = recorded_crypto w nt" if "\<forall>t \<in> set nt. t < length (tools w)"
    unfolding recorded_crypto_def using that o
    by (metis (mono_tags, lifting) filter_cong)
qed

lemma pending_Cons:
  "pending (p # ps) =
     (if plugin_class p = CryptomattePlugin then (if made_crypto p then 0 else 1) else pending ps)"
  by (simp add: pending_def)

lemma pending_sig:
  "map plugin_sig ps' = map plugin_sig ps \<Longrightarrow> pending ps' = pending ps"
proof (induction ps arbitrary: ps')
  case Nil
  then show ?case by simp
next
  case (Cons p ps)
  then obtain q qs where e: "ps' = q # qs" and h: "plugin_sig q = plugin_sig p"
    and t: "map plugin_sig qs = map plugin_sig ps"
    by (cases ps') auto
  from h have "plugin_class q = plugin_class p" and "made_crypto q = made_crypto p"
    by (simp_all add: plugin_sig_def)
  with Cons.IH [OF t] show ?case
    by (simp add: pending_Cons e)
qed

lemma run_plugins_raise:
  assumes "process_layer p layer_name chans
             (logger DEBUG ''Attempting to use plugin %s on layer %s''
                [Str (class_name (plugin_class p)), Str layer_name] w) = (Inl e, p', w2)"
  shows "run_plugins layer_name chans (p # rest) new_tools w = (Inl e, p' # rest, w2)"
  using assms by (simp add: Let_def)

lemma accepted_world_tools [simp]: "tools (accepted_world p layer_name result w) = tools w"
  by (simp add: accepted_world_def split: option.splits)


lemma same_tools_count: "tools v = tools w \<Longrightarrow> crypto_count v = crypto_count w"
  by (simp add: crypto_count_def)

lemma same_tools_recorded:
  assumes "tools v = tools w"
  shows "recorded_crypto v nt = recorded_crypto w nt"
proof -
  have "is_crypto_tool v = is_crypto_tool w"
    by (simp add: fun_eq_iff is_crypto_tool_def get_tool_def assms)
  then show ?thesis
    by (simp add: recorded_crypto_def)
qed

lemma run_plugins_step:
  assumes "run_plugins layer_name chans (p # rest) nt w = (r, ps', w')"
  obtains
    (raise) e p1 where "r = Inl e" and "ps' = p1 # rest" and "plugin_class p \<noteq> CryptomattePlugin"
      and "plugin_sig p1 = plugin_sig p"
      and "map static (tools w') = map static (tools w) @ created p layer_name"
  | (accept) res p1 where "r = Inr (case as_tool res of Some t \<Rightarrow> nt @ [t] | None \<Rightarrow> nt)"
      and "ps' = p1 # rest" and "plugin_class p1 = plugin_class p"
      and "made_crypto p1 =
             (made_crypto p \<or> (plugin_class p = CryptomattePlugin \<and> is_crypto_layer layer_name))"
      and "map static (tools w') = map static (tools w) @ created p layer_name"
      and "\<And>t. as_tool res = Some t \<Longrightarrow> t = length (tools w) \<and> created p layer_name \<noteq> []"
      and "plugin_class p = CryptomattePlugin \<Longrightarrow>
             is_crypto_layer layer_name \<and> (as_tool res = None \<longleftrightarrow> made_crypto p)"
  | (reject) p1 w4 rest' where "ps' = p1 # rest'" and "plugin_sig p1 = plugin_sig p"
      and "plugin_class p = CryptomattePlugin \<Longrightarrow> \<not> is_crypto_layer layer_name"
      and "map static (tools w4) = map static (tools w) @ created p layer_name"
      and "run_plugins layer_name chans rest nt w4 = (r, rest', w')"
proof -
  let ?w1 = "logger DEBUG ''Attempting to use plugin %s on layer %s''
               [Str (class_name (plugin_class p)), Str layer_name] w"
  obtain r1 p1 w2 where pl: "process_layer p layer_name chans ?w1 = (r1, p1, w2)"
    by (cases "process_layer p layer_name chans ?w1")
  note e = process_layer_effect [OF pl]
  have st: "map static (tools w2) = map static (tools w) @ created p layer_name"
    using e(3) by simp
  show thesis
  proof (cases r1)
    case (Inl err)
    have "plugin_class p \<noteq> CryptomattePlugin"
      using e(5) Inl by auto
    moreover have "plugin_sig p1 = plugin_sig p"
      using e(1) e(2) calculation by (simp add: plugin_sig_def)
    moreover have "r = Inl err" "ps' = p1 # rest" "w' = w2"
      using assms run_plugins_raise [OF pl [unfolded Inl], of rest nt] by simp_all
    ultimately show thesis
      using raise st by blast
  next
    case (Inr res)
    let ?w3 = "logger DEBUG ''Result: {}'' [Val res] w2"
    have pc: "plugin_call layer_name chans p w = Some (res, p1, ?w3)"
      by (simp add: plugin_call_def pl Inr)
    show thesis
    proof (cases "truthy res")
      case True
      have run: "r = Inr (case as_tool res of Some t \<Rightarrow> nt @ [t] | None \<Rightarrow> nt)"
          "ps' = p1 # rest" "w' = accepted_world p layer_name res ?w3"
        using assms run_plugins_accept [OF pc True, of rest nt] by simp_all
      have st': "map static (tools w') = map static (tools w) @ created p layer_name"
        using st by (simp add: run(3))
      have cm: "is_crypto_layer layer_name \<and> (as_tool res = None \<longleftrightarrow> made_crypto p)"
        if "plugin_class p = CryptomattePlugin"
        using e(5) [OF that] Inr True by (auto split: if_splits)
      have tf: "t = length (tools w) \<and> created p layer_name \<noteq> []" if "as_tool res = Some t" for t
        using e(4) [OF Inr that] by simp
      show thesis
        by (rule accept [OF run(1) run(2) e(1) e(2) st' tf cm])
    next
      case False
      let ?w4 = "logger DEBUG ''Plugin %s rejected layer %s''
                   [Str (class_name (plugin_class p)), Str layer_name] ?w3"
      obtain r5 rest' w5 where rec: "run_plugins layer_name chans rest nt ?w4 = (r5, rest', w5)"
        by (cases "run_plugins layer_name chans rest nt ?w4")
      have run: "r = r5" "ps' = p1 # rest'" "w' = w5"
        using assms run_plugins_reject [OF pc False, of rest nt] rec by simp_all
      have nc: "\<not> is_crypto_layer layer_name" if "plugin_class p = CryptomattePlugin"
        using e(5) [OF that] Inr False by (auto split: if_splits)
      have sg: "plugin_sig p1 = plugin_sig p"
        using e(1) e(2) nc by (auto simp: plugin_sig_def)
      have st4: "map static (tools ?w4) = map static (tools w) @ created p layer_name"
        using st by simp
      show thesis
        using reject [OF run(2) sg nc st4] rec run by blast
    qed
  qed
qed


lemma created_plain:
  "\<not> (plugin_class p = CryptomattePlugin \<and> is_crypto_layer layer_name \<and> \<not> made_crypto p) \<Longrightarrow>
   filter (\<lambda>s. fst s = ''Fuse.Cryptomatte'') (created p layer_name) = []
   \<and> (created p layer_name \<noteq> [] \<longrightarrow> created p layer_name = [(''Loader'', [], None)])"
  by (auto simp: created_def)

lemma created_matte:
  "plugin_class p = CryptomattePlugin \<Longrightarrow> is_crypto_layer layer_name \<Longrightarrow> \<not> made_crypto p \<Longrightarrow>
   created p layer_name = [(''Fuse.Cryptomatte'', [], None)]"
  by (simp add: created_def)

lemma recorded_crypto_snoc:
  "recorded_crypto w (nt @ [t]) = recorded_crypto w nt + (if is_crypto_tool w t then 1 else 0)"
  by (simp add: recorded_crypto_def)

text \<open>A layer that is no matte layer: no matte node is made or recorded, no flag changes.\<close>

lemma run_plugins_plain_layer:
  assumes "\<not> is_crypto_layer layer_name"
  shows "run_plugins layer_name chans ps nt w = (r, ps', w') \<Longrightarrow>
    \<forall>t \<in> set nt. t < length (tools w) \<Longrightarrow>
    map plugin_sig ps' = map plugin_sig ps \<and> length (tools w) \<le> length (tools w')
    \<and> crypto_count w' = crypto_count w
    \<and> (\<forall>nt'. r = Inr nt' \<longrightarrow>
          (\<forall>t \<in> set nt'. t < length (tools w')) \<and> recorded_crypto w' nt' = recorded_crypto w nt)"
proof (induction ps arbitrary: w r ps' w')
  case Nil
  then show ?case by auto
next
  case (Cons p rest)
  have cr: "filter (\<lambda>s. fst s = ''Fuse.Cryptomatte'') (created p layer_name) = []"
    and cl: "created p layer_name \<noteq> [] \<Longrightarrow> created p layer_name = [(''Loader'', [], None)]"
    using created_plain [of p layer_name] assms by simp_all
  from Cons.prems(1) show ?case
  proof (cases rule: run_plugins_step)
    case (raise e p1)
    note g = grown_facts [OF raise(5)]
    show ?thesis
      using raise(1,2,4) g(1,2) cr by simp
  next
    case (accept res p1)
    note g = grown_facts [OF accept(5)]
    have sg: "plugin_sig p1 = plugin_sig p"
      using accept(3,4) assms by (simp add: plugin_sig_def)
    have rec: "(\<forall>t \<in> set nt'. t < length (tools w')) \<and> recorded_crypto w' nt' = recorded_crypto w nt"
      if "r = Inr nt'" for nt'
    proof (cases "as_tool res")
      case None
      with accept(1) that have "nt' = nt" by simp
      then show ?thesis
        using g(1) g(5) [OF Cons.prems(2)] Cons.prems(2) by auto
    next
      case (Some t)
      with accept(1) that have n: "nt' = nt @ [t]" by simp
      from accept(6) [OF Some] have t: "t = length (tools w)" and ne: "created p layer_name \<noteq> []"
        by simp_all
      have "\<not> is_crypto_tool w' t"
        using g(4) [OF cl [OF ne]] t by simp
      then show ?thesis
        using g(1) g(5) [OF Cons.prems(2)] Cons.prems(2) ne
        by (auto simp: n recorded_crypto_snoc t)
    qed
    show ?thesis
      using accept(2) sg g(1,2) cr rec by simp
  next
    case (reject p1 w4 rest')
    note g = grown_facts [OF reject(4)]
    have v4: "\<forall>t \<in> set nt. t < length (tools w4)"
      using Cons.prems(2) g(1) by auto
    note ih = Cons.IH [OF reject(5) v4]
    show ?thesis
      using ih reject(1,2) g(1,2) g(5) [OF Cons.prems(2)] cr by simp
  qed
qed

text \<open>
  Any layer: the matte nodes of the store and of \<open>new_tools\<close>, each counted with the node
  that the first matte plugin has still to make, do not grow.
\<close>

lemma run_plugins_matte:
  "run_plugins layer_name chans ps nt w = (r, ps', w') \<Longrightarrow>
   \<forall>t \<in> set nt. t < length (tools w) \<Longrightarrow>
   length (tools w) \<le> length (tools w')
   \<and> crypto_count w' + pending ps' \<le> crypto_count w + pending ps
   \<and> (\<forall>nt'. r = Inr nt' \<longrightarrow>
         (\<forall>t \<in> set nt'. t < length (tools w'))
         \<and> recorded_crypto w' nt' + pending ps' \<le> recorded_crypto w nt + pending ps)"
proof (induction ps arbitrary: w r ps' w')
  case Nil
  then show ?case by auto
next
  case (Cons p rest)
  from Cons.prems(1) show ?case
  proof (cases rule: run_plugins_step)
    case (raise e p1)
    note g = grown_facts [OF raise(5)]
    have cr: "filter (\<lambda>s. fst s = ''Fuse.Cryptomatte'') (created p layer_name) = []"
      using created_plain [of p layer_name] raise(3) by simp
    have "pending (p1 # rest) = pending (p # rest)"
      using raise(4) by (intro pending_sig) simp
    then show ?thesis
      using raise(1,2) g(1,2) cr by simp
  next
    case (accept res p1)
    note g = grown_facts [OF accept(5)]
    show ?thesis
    proof (cases "plugin_class p = CryptomattePlugin \<and> \<not> made_crypto p")
      case True
      with accept(7) have layer: "is_crypto_layer layer_name" and tool: "as_tool res \<noteq> None"
        by simp_all
      then obtain t where t: "as_tool res = Some t"
        by auto
      have c: "created p layer_name = [(''Fuse.Cryptomatte'', [], None)]"
        using created_matte True layer by simp
      have tl: "t = length (tools w)"
        using accept(6) [OF t] by simp
      have ic: "is_crypto_tool w' t"
        using g(4) [OF c] tl by simp
      have pd: "pending (p # rest) = 1" "pending (p1 # rest) = 0"
        using True accept(3,4) layer by (simp_all add: pending_Cons)
      have r: "r = Inr (nt @ [t])"
        using accept(1) t by simp
      show ?thesis
        using g(1,2) g(5) [OF Cons.prems(2)] Cons.prems(2) ic
        by (auto simp: r accept(2) pd c recorded_crypto_snoc tl)
    next
      case False
      then have np: "\<not> (plugin_class p = CryptomattePlugin \<and> is_crypto_layer layer_name
                          \<and> \<not> made_crypto p)"
        by auto
      have cr: "filter (\<lambda>s. fst s = ''Fuse.Cryptomatte'') (created p layer_name) = []"
        and cl: "created p layer_name \<noteq> [] \<Longrightarrow> created p layer_name = [(''Loader'', [], None)]"
        using created_plain [OF np] by simp_all
      have pd: "pending (p1 # rest) \<le> pending (p # rest)"
        using accept(3,4) by (auto simp: pending_Cons)
      have rec: "(\<forall>t \<in> set nt'. t < length (tools w'))
                 \<and> recorded_crypto w' nt' = recorded_crypto w nt"
        if "r = Inr nt'" for nt'
      proof (cases "as_tool res")
        case None
        with accept(1) that have "nt' = nt" by simp
        then show ?thesis
          using g(1) g(5) [OF Cons.prems(2)] Cons.prems(2) by auto
      next
        case (Some t)
        with accept(1) that have n: "nt' = nt @ [t]" by simp
        from accept(6) [OF Some] have t: "t = length (tools w)" and ne: "created p layer_name \<noteq> []"
          by simp_all
        have "\<not> is_crypto_tool w' t"
          using g(4) [OF cl [OF ne]] t by simp
        then show ?thesis
          using g(1) g(5) [OF Cons.prems(2)] Cons.prems(2) ne
          by (auto simp: n recorded_crypto_snoc t)
      qed
      show ?thesis
        using accept(2) g(1,2) cr rec pd by auto
    qed
  next
    case (reject p1 w4 rest')
    note g = grown_facts [OF reject(4)]
    have v4: "\<forall>t \<in> set nt. t < length (tools w4)"
      using Cons.prems(2) g(1) by auto
    have np: "\<not> (plugin_class p = CryptomattePlugin \<and> is_crypto_layer layer_name
                        \<and> \<not> made_crypto p)"
      using reject(3) by auto
    have cr: "filter (\<lambda>s. fst s = ''Fuse.Cryptomatte'') (created p layer_name) = []"
      using created_plain [OF np] by simp
    have c4: "crypto_count w4 = crypto_count w" and r4: "recorded_crypto w4 nt = recorded_crypto w nt"
      using g(2) cr g(5) [OF Cons.prems(2)] by simp_all
    have sg: "plugin_class p1 = plugin_class p" "made_crypto p1 = made_crypto p"
      using reject(2) by (simp_all add: plugin_sig_def)
    show ?thesis
    proof (cases "plugin_class p = CryptomattePlugin")
      case True
      note n = run_plugins_plain_layer [OF reject(3) [OF True] reject(5) v4]
      have "pending (p1 # rest') = pending (p # rest)"
        using True sg by (simp add: pending_Cons)
      then show ?thesis
        using n g(1) c4 r4 by (simp add: reject(1))
    next
      case False
      note ih = Cons.IH [OF reject(5) v4]
      have "pending (p1 # rest') = pending rest'" "pending (p # rest) = pending rest"
        using False sg by (simp_all add: pending_Cons)
      then show ?thesis
        using ih g(1) c4 r4 by (simp add: reject(1))
    qed
  qed
qed



lemma pending_le_1: "pending ps \<le> 1"
  by (simp add: pending_def split: option.splits)

lemma run_layers_matte:
  "run_layers ls ps nt w = (r, ps', w') \<Longrightarrow>
   \<forall>t \<in> set nt. t < length (tools w) \<Longrightarrow>
   length (tools w) \<le> length (tools w')
   \<and> crypto_count w' + pending ps' \<le> crypto_count w + pending ps
   \<and> (\<forall>nt'. r = Inr nt' \<longrightarrow>
         (\<forall>t \<in> set nt'. t < length (tools w'))
         \<and> recorded_crypto w' nt' + pending ps' \<le> recorded_crypto w nt + pending ps)"
proof (induction ls arbitrary: ps nt w)
  case Nil
  from Nil.prems(1) have e: "r = Inr nt" "ps' = ps" "w' = w"
    by simp_all
  show ?case
    unfolding e using Nil.prems(2) by simp
next
  case (Cons l rest)
  obtain layer_name chans where l: "l = (layer_name, chans)"
    by (cases l)
  let ?w1 = "logger INFO ''Layer: %s'' [Str layer_name] w"
  obtain r1 ps1 w2 where b: "run_plugins layer_name chans ps nt ?w1 = (r1, ps1, w2)"
    by (cases "run_plugins layer_name chans ps nt ?w1")
  have v1: "\<forall>t \<in> set nt. t < length (tools ?w1)"
    using Cons.prems(2) by simp
  note m = run_plugins_matte [OF b v1]
  note m1 = m [THEN conjunct1]
  note m2 = m [THEN conjunct2, THEN conjunct1]
  note m3 = m [THEN conjunct2, THEN conjunct2, rule_format]
  have s1: "crypto_count ?w1 = crypto_count w" "recorded_crypto ?w1 nt = recorded_crypto w nt"
    using same_tools_count [of ?w1 w] same_tools_recorded [of ?w1 w nt] by simp_all
  have a1: "length (tools w) \<le> length (tools w2)"
    using m1 by simp
  have b1: "crypto_count w2 + pending ps1 \<le> crypto_count w + pending ps"
    using m2 unfolding s1 .
  show ?case
  proof (cases r1)
    case (Inl e)
    have "run_layers (l # rest) ps nt w = (Inl e, ps1, w2)"
      unfolding l by (simp add: Let_def b Inl)
    with Cons.prems(1) have e: "r = Inl e" "ps' = ps1" "w' = w2"
      by simp_all
    show ?thesis
      unfolding e using a1 b1 by simp
  next
    case (Inr nt1)
    have "run_layers (l # rest) ps nt w = run_layers rest ps1 nt1 w2"
      unfolding l by (simp add: Let_def b Inr)
    with Cons.prems(1) have rl: "run_layers rest ps1 nt1 w2 = (r, ps', w')"
      by simp
    note m4 = m3 [OF Inr, unfolded s1]
    have v2: "\<forall>t \<in> set nt1. t < length (tools w2)"
      using m4 by (rule conjunct1)
    have r2: "recorded_crypto w2 nt1 + pending ps1 \<le> recorded_crypto w nt + pending ps"
      using m4 by (rule conjunct2)
    note ih = Cons.IH [OF rl v2]
    note ih1 = ih [THEN conjunct1]
    note ih2 = ih [THEN conjunct2, THEN conjunct1]
    note ih3 = ih [THEN conjunct2, THEN conjunct2, rule_format]
    have c: "(\<forall>t \<in> set nt'. t < length (tools w'))
        \<and> recorded_crypto w' nt' + pending ps' \<le> recorded_crypto w nt + pending ps"
      if "r = Inr nt'" for nt'
    proof
      show "\<forall>t \<in> set nt'. t < length (tools w')"
        using ih3 [OF that] by (rule conjunct1)
      have "recorded_crypto w' nt' + pending ps' \<le> recorded_crypto w2 nt1 + pending ps1"
        using ih3 [OF that] by (rule conjunct2)
      with r2 show "recorded_crypto w' nt' + pending ps' \<le> recorded_crypto w nt + pending ps"
        by linarith
    qed
    have "length (tools w) \<le> length (tools w')"
      using a1 ih1 by linarith
    moreover have "crypto_count w' + pending ps' \<le> crypto_count w + pending ps"
      using ih2 b1 by linarith
    ultimately show ?thesis
      using c by (intro conjI allI impI) simp_all
  qed
qed

text \<open>
  C4. In one splitting operation, whatever the plugin classes, the options and the layers,
  the store gains at most one matte node and \<open>new_tools\<close> records at most one. A call of the
  matte plugin on a layer it accepts makes the node, returns it and sets its flag when the
  flag was not set; when the flag was set it returns \<open>True\<close>, which is no node, and leaves the
  store as it was.
\<close>

theorem one_matte_node:
  "crypto_count (snd (split_multilayer_exr w ld plugin_classes opts)) \<le> crypto_count w + 1
   \<and> (\<forall>new_tools. fst (split_multilayer_exr w ld plugin_classes opts) = Inr new_tools \<longrightarrow>
         recorded_crypto (snd (split_multilayer_exr w ld plugin_classes opts)) new_tools \<le> 1)
   \<and> (is_crypto_layer layer_name \<and> \<not> made_crypto self \<longrightarrow>
         fst (CryptomattePlugin_process_layer self layer_name chans v) = Inr (PyTool (length (tools v)))
         \<and> made_crypto (fst (snd (CryptomattePlugin_process_layer self layer_name chans v)))
         \<and> is_crypto_tool (snd (snd (CryptomattePlugin_process_layer self layer_name chans v)))
              (length (tools v))
         \<and> crypto_count (snd (snd (CryptomattePlugin_process_layer self layer_name chans v))) =
             crypto_count v + 1)
   \<and> (is_crypto_layer layer_name \<and> made_crypto self \<longrightarrow>
         fst (CryptomattePlugin_process_layer self layer_name chans v) = Inr (PyBool True)
         \<and> made_crypto (fst (snd (CryptomattePlugin_process_layer self layer_name chans v)))
         \<and> tools (snd (snd (CryptomattePlugin_process_layer self layer_name chans v))) = tools v)"
proof (intro conjI impI allI)
  let ?ls = "group_layers (channel_ids (get_tool w ld))"
  let ?w1 = "logger DEBUG ''%s layers found.'' [Num (length ?ls)] w"
  let ?ps = "make_plugins plugin_classes (clip_name (get_tool w ld)) ld ?ls opts"
  obtain r ps' w2 where rl: "run_layers ?ls ?ps [] ?w1 = (r, ps', w2)"
    by (cases "run_layers ?ls ?ps [] ?w1")
  from run_layers_matte [OF rl]
  have c: "crypto_count w2 + pending ps' \<le> crypto_count ?w1 + pending ?ps"
    and n: "\<And>nt'. r = Inr nt' \<Longrightarrow> recorded_crypto w2 nt' + pending ps' \<le> recorded_crypto ?w1 [] + pending ?ps"
    by simp_all
  have s: "crypto_count ?w1 = crypto_count w" "recorded_crypto ?w1 [] = 0"
    by (simp_all add: crypto_count_def recorded_crypto_def)
  have c2: "crypto_count w2 \<le> crypto_count w + 1"
    using c s pending_le_1 [of ?ps] by simp
  have run: "split_multilayer_exr w ld plugin_classes opts =
      (case r of Inl e \<Rightarrow> (Inl e, w2)
       | Inr nt' \<Rightarrow> (Inr nt', logger DEBUG ''Finished processing all layers.'' [] w2))"
    by (simp add: split_multilayer_exr_def Let_def rl split: sum.splits)
  show "crypto_count (snd (split_multilayer_exr w ld plugin_classes opts)) \<le> crypto_count w + 1"
    unfolding run using c2 by (cases r) (simp_all add: crypto_count_def)
  show "recorded_crypto (snd (split_multilayer_exr w ld plugin_classes opts)) new_tools \<le> 1"
    if "fst (split_multilayer_exr w ld plugin_classes opts) = Inr new_tools" for new_tools
  proof -
    from that have r: "r = Inr new_tools"
      unfolding run by (cases r) simp_all
    have "recorded_crypto w2 new_tools \<le> 1"
      using n [OF r] s pending_le_1 [of ?ps] by simp
    moreover have "recorded_crypto (logger DEBUG ''Finished processing all layers.'' [] w2)
        new_tools = recorded_crypto w2 new_tools"
      by (rule same_tools_recorded) simp
    ultimately show ?thesis
      unfolding run r by simp
  qed
next
  let ?run = "CryptomattePlugin_process_layer self layer_name chans v"
  assume a: "is_crypto_layer layer_name \<and> \<not> made_crypto self"
  note g = grown_facts [OF static_CryptomattePlugin [of self layer_name chans v]]
  show "fst ?run = Inr (PyTool (length (tools v)))"
    using a CryptomattePlugin_result [of self layer_name chans v] by simp
  show "made_crypto (fst (snd ?run))"
    using a CryptomattePlugin_result [of self layer_name chans v] by simp
  show "is_crypto_tool (snd (snd ?run)) (length (tools v))"
    using a g(4) [of "(''Fuse.Cryptomatte'', [], None)"] by simp
  show "crypto_count (snd (snd ?run)) = crypto_count v + 1"
    using a g(2) by simp
next
  let ?run = "CryptomattePlugin_process_layer self layer_name chans v"
  assume a: "is_crypto_layer layer_name \<and> made_crypto self"
  show "fst ?run = Inr (PyBool True)"
    using a CryptomattePlugin_result [of self layer_name chans v] by simp
  show "made_crypto (fst (snd ?run))"
    using a CryptomattePlugin_result [of self layer_name chans v] by simp
  show "tools (snd (snd ?run)) = tools v"
    using a by (simp add: CryptomattePlugin_process_layer_def is_crypto_layer_def Let_def)
qed



theorem one_matte_node_witness:
  "fst (split_multilayer_exr crypto_world 0 [CryptomattePlugin, DefaultPlugin] Map.empty) = Inr [1]
   \<and> recorded_crypto
        (snd (split_multilayer_exr crypto_world 0 [CryptomattePlugin, DefaultPlugin] Map.empty)) [1]
       \<le> 1
   \<and> crypto_count
        (snd (split_multilayer_exr crypto_world 0 [CryptomattePlugin, DefaultPlugin] Map.empty))
       \<le> 1
   \<and> is_crypto_layer ''Crypto01'' \<and> \<not> made_crypto matte_plugin
   \<and> fst (CryptomattePlugin_process_layer matte_plugin ''Crypto01'' [(''r'', ''Crypto01.R'')]
            crypto_world) = Inr (PyTool 1)
   \<and> fst (CryptomattePlugin_process_layer (matte_plugin\<lparr>made_crypto := True\<rparr>) ''Crypto01''
            [(''r'', ''Crypto01.R'')] crypto_world) = Inr (PyBool True)"
proof -
  have a: "fst (split_multilayer_exr crypto_world 0 [CryptomattePlugin, DefaultPlugin] Map.empty)
      = Inr [1]"
    by (simp add: crypto_world_def run_defs Let_def)
  have b: "is_crypto_layer ''Crypto01''"
    by (simp add: is_crypto_layer_def lower_def lower_char_def)
  have c: "\<not> made_crypto matte_plugin" "made_crypto (matte_plugin\<lparr>made_crypto := True\<rparr>)"
    by (simp_all add: matte_plugin_def)
  have d: "crypto_count crypto_world = 0" "length (tools crypto_world) = 1"
    by (simp_all add: crypto_world_def crypto_count_def exr_loader_def new_tool_def)
  note t1 = one_matte_node [of crypto_world 0 "[CryptomattePlugin, DefaultPlugin]" Map.empty
      "''Crypto01''" matte_plugin "[(''r'', ''Crypto01.R'')]" crypto_world]
  note t2 = one_matte_node [of crypto_world 0 "[CryptomattePlugin, DefaultPlugin]" Map.empty
      "''Crypto01''" "matte_plugin\<lparr>made_crypto := True\<rparr>" "[(''r'', ''Crypto01.R'')]" crypto_world]
  from t1 a b c d t2 show ?thesis
    by simp
qed

end
